theory Spec2Isabelle
  imports Complex_Main
begin

section \<open>Value types of the 3D runtime\<close>

text \<open>
  The navigation component (\<^verbatim>\<open>a-cursor-teleport\<close> in
  \<^verbatim>\<open>src/components/a-cursor-navigation.js\<close>) computes with the vector, quaternion
  and matrix classes of the 3D runtime.  JavaScript numbers are modelled as real numbers:
  the theory speaks about the arithmetic the code writes down, not about rounding.
\<close>

datatype Vector3 = Vector3 (vx: real) (vy: real) (vz: real)

datatype Quaternion = Quaternion (qx: real) (qy: real) (qz: real) (qw: real)

text \<open>Matrix elements are stored column by column, as the \<^verbatim>\<open>elements\<close> array is.\<close>

datatype Matrix3 = Matrix3 real real real  real real real  real real real

datatype Matrix4 = Matrix4 real real real real  real real real real
                           real real real real  real real real real

definition EPSILON :: real where
  "EPSILON = 1 / 2 ^ 52"

definition RAD2DEG :: real where
  "RAD2DEG = 180 / pi"

subsection \<open>Vector3\<close>

definition dot :: "Vector3 \<Rightarrow> Vector3 \<Rightarrow> real" where
  "dot a b = vx a * vx b + vy a * vy b + vz a * vz b"

definition lengthSq :: "Vector3 \<Rightarrow> real" where
  "lengthSq a = vx a * vx a + vy a * vy a + vz a * vz a"

definition length3 :: "Vector3 \<Rightarrow> real" where
  "length3 a = sqrt (vx a * vx a + vy a * vy a + vz a * vz a)"

definition multiplyScalar :: "Vector3 \<Rightarrow> real \<Rightarrow> Vector3" where
  "multiplyScalar a s = Vector3 (vx a * s) (vy a * s) (vz a * s)"

definition divideScalar :: "Vector3 \<Rightarrow> real \<Rightarrow> Vector3" where
  "divideScalar a s = multiplyScalar a (1 / s)"

text \<open>\<^verbatim>\<open>normalize()\<close> is \<^verbatim>\<open>divideScalar(length() || 1)\<close>: a zero vector stays zero.\<close>

definition normalize :: "Vector3 \<Rightarrow> Vector3" where
  "normalize a = divideScalar a (if length3 a = 0 then 1 else length3 a)"

definition add3 :: "Vector3 \<Rightarrow> Vector3 \<Rightarrow> Vector3" where
  "add3 a b = Vector3 (vx a + vx b) (vy a + vy b) (vz a + vz b)"

definition lerpVectors :: "Vector3 \<Rightarrow> Vector3 \<Rightarrow> real \<Rightarrow> Vector3" where
  "lerpVectors v1 v2 alpha =
     Vector3 (vx v1 + (vx v2 - vx v1) * alpha)
             (vy v1 + (vy v2 - vy v1) * alpha)
             (vz v1 + (vz v2 - vz v1) * alpha)"

definition clamp :: "real \<Rightarrow> real \<Rightarrow> real \<Rightarrow> real" where
  "clamp v lo hi = max lo (min hi v)"

text \<open>
  \<^verbatim>\<open>angleTo\<close>: the angle in radians; when one of the vectors has length zero the
  runtime answers a right angle instead of dividing by zero.
\<close>

definition angleTo :: "Vector3 \<Rightarrow> Vector3 \<Rightarrow> real" where
  "angleTo a b =
     (let denominator = sqrt (lengthSq a * lengthSq b)
      in if denominator = 0 then pi / 2
         else arccos (clamp (dot a b / denominator) (- 1) 1))"

subsection \<open>Matrix3\<close>

definition setFromMatrix4 :: "Matrix4 \<Rightarrow> Matrix3" where
  "setFromMatrix4 m =
     (case m of Matrix4 e0 e1 e2 e3 e4 e5 e6 e7 e8 e9 e10 e11 e12 e13 e14 e15 \<Rightarrow>
        Matrix3 e0 e1 e2 e4 e5 e6 e8 e9 e10)"

text \<open>\<^verbatim>\<open>invert()\<close> by cofactors; a singular matrix becomes the zero matrix.\<close>

definition invert3 :: "Matrix3 \<Rightarrow> Matrix3" where
  "invert3 m =
     (case m of Matrix3 n11 n21 n31 n12 n22 n32 n13 n23 n33 \<Rightarrow>
        (let t11 = n33 * n22 - n32 * n23;
             t12 = n32 * n13 - n33 * n12;
             t13 = n23 * n12 - n22 * n13;
             det = n11 * t11 + n21 * t12 + n31 * t13
         in if det = 0 then Matrix3 0 0 0 0 0 0 0 0 0
            else (let detInv = 1 / det
                  in Matrix3 (t11 * detInv)
                             ((n31 * n23 - n33 * n21) * detInv)
                             ((n32 * n21 - n31 * n22) * detInv)
                             (t12 * detInv)
                             ((n33 * n11 - n31 * n13) * detInv)
                             ((n31 * n12 - n32 * n11) * detInv)
                             (t13 * detInv)
                             ((n21 * n13 - n23 * n11) * detInv)
                             ((n22 * n11 - n21 * n12) * detInv))))"

definition transpose3 :: "Matrix3 \<Rightarrow> Matrix3" where
  "transpose3 m =
     (case m of Matrix3 e0 e1 e2 e3 e4 e5 e6 e7 e8 \<Rightarrow>
        Matrix3 e0 e3 e6 e1 e4 e7 e2 e5 e8)"

text \<open>The normal matrix: the inverse transpose of the upper left 3x3 block.\<close>

definition getNormalMatrix :: "Matrix4 \<Rightarrow> Matrix3" where
  "getNormalMatrix m = transpose3 (invert3 (setFromMatrix4 m))"

definition applyMatrix3 :: "Vector3 \<Rightarrow> Matrix3 \<Rightarrow> Vector3" where
  "applyMatrix3 v m =
     (case m of Matrix3 e0 e1 e2 e3 e4 e5 e6 e7 e8 \<Rightarrow>
        Vector3 (e0 * vx v + e3 * vy v + e6 * vz v)
                (e1 * vx v + e4 * vy v + e7 * vz v)
                (e2 * vx v + e5 * vy v + e8 * vz v))"

definition applyNormalMatrix :: "Vector3 \<Rightarrow> Matrix3 \<Rightarrow> Vector3" where
  "applyNormalMatrix v m = normalize (applyMatrix3 v m)"

definition identity4 :: Matrix4 where
  "identity4 = Matrix4 1 0 0 0  0 1 0 0  0 0 1 0  0 0 0 1"

subsection \<open>Quaternion\<close>

definition identityQ :: Quaternion where
  "identityQ = Quaternion 0 0 0 1"

definition normalizeQ :: "Quaternion \<Rightarrow> Quaternion" where
  "normalizeQ q =
     (let l = sqrt (qx q * qx q + qy q * qy q + qz q * qz q + qw q * qw q)
      in if l = 0 then Quaternion 0 0 0 1
         else Quaternion (qx q * (1 / l)) (qy q * (1 / l)) (qz q * (1 / l)) (qw q * (1 / l)))"

text \<open>
  \<^verbatim>\<open>setFromUnitVectors(vFrom, vTo)\<close>: the rotation that takes the direction
  \<open>vFrom\<close> to the direction \<open>vTo\<close>.
\<close>

definition setFromUnitVectors :: "Vector3 \<Rightarrow> Vector3 \<Rightarrow> Quaternion" where
  "setFromUnitVectors vFrom vTo =
     (let r = dot vFrom vTo + 1
      in if r < EPSILON then
           (if \<bar>vx vFrom\<bar> > \<bar>vz vFrom\<bar>
            then normalizeQ (Quaternion (- vy vFrom) (vx vFrom) 0 0)
            else normalizeQ (Quaternion 0 (- vz vFrom) (vy vFrom) 0))
         else normalizeQ (Quaternion (vy vFrom * vz vTo - vz vFrom * vy vTo)
                                     (vz vFrom * vx vTo - vx vFrom * vz vTo)
                                     (vx vFrom * vy vTo - vy vFrom * vx vTo)
                                     r))"

section \<open>Easing\<close>

text \<open>
  \<^verbatim>\<open>easeInOutQuad(t) { return t < 0.5 ? 2 * t * t : (4 - 2 * t) * t - 1; }\<close>
\<close>

definition easeInOutQuad :: "real \<Rightarrow> real" where
  "easeInOutQuad t = (if t < 0.5 then 2 * t * t else (4 - 2 * t) * t - 1)"

text \<open>
  The ease as the specification words it: \<open>2t\<^sup>2\<close> below one half, and
  \<open>1 - (-2t + 2)\<^sup>2 / 2\<close> from one half on.
\<close>

definition spec_easeInOutQuad :: "real \<Rightarrow> real" where
  "spec_easeInOutQuad t = (if t < 0.5 then 2 * t\<^sup>2 else 1 - ((- 2 * t + 2)\<^sup>2) / 2)"

section \<open>The scene graph, the object flags and the raycaster\<close>

text \<open>
  Scene objects have an identity.  The component creates one object of its own, the default
  collision plane used when no collision selector is configured.
\<close>

datatype ObjId = SceneObject nat | DefaultCollisionPlane

datatype Object3D =
  Object3D (uuid: ObjId) (isMesh: bool) (obj_visible: bool) (matrixWorld: Matrix4)
           (children: "Object3D list")

text \<open>
  The flags the components write into \<^verbatim>\<open>obj.userData\<close>.  They live in a store indexed
  by object identity, because the registry, the scene graph and the intersections all refer
  to the same objects.
\<close>

record UserData =
  collision :: bool
  isNavmesh :: bool
  raycastExclude :: bool

text \<open>\<^verbatim>\<open>Object3D.traverse(callback)\<close> visits the object, then its children in order.\<close>

fun traverse :: "Object3D \<Rightarrow> Object3D list" where
  "traverse (Object3D i m v w cs) = Object3D i m v w cs # concat (map traverse cs)"

datatype Intersection =
  Intersection (distance: real) (hit_point: Vector3) (face_normal: Vector3) (hit_object: Object3D)

text \<open>
  \<^verbatim>\<open>raycaster.intersectObjects(objects, recursive)\<close> belongs to the 3D runtime and
  depends on the geometry; it is a parameter of the model.  Its contract is that the
  intersections come back in ascending order of distance.
\<close>

type_synonym Raycaster = "Object3D list \<Rightarrow> bool \<Rightarrow> Intersection list"

definition ascending :: "Intersection list \<Rightarrow> bool" where
  "ascending hits = sorted (map distance hits)"

text \<open>
  The \<^verbatim>\<open>a-cursor\<close> element of the document: absent, or present with the runtime
  raycaster of its raycaster component (which may not be ready yet).
\<close>

datatype ACursor = NoCursorEl | CursorEl "Raycaster option"

fun elRaycaster :: "ACursor \<Rightarrow> Raycaster option" where
  "elRaycaster NoCursorEl = None"
| "elRaycaster (CursorEl r) = r"

record Transform =
  position :: Vector3
  quaternion :: Quaternion

record Indicator = Transform +
  visible :: bool

text \<open>
  What the component reads from its host at the moment of a call: the scene graph, the
  selector queries, the cursor element, the tunnel element, the VR flags, the camera rig
  and head, the canvas rectangle, the pointer raycaster of the legacy mouse path
  (\<^verbatim>\<open>setFromCamera\<close> at the given device coordinates) and the runtime's spherical
  interpolation of quaternions.
\<close>

record Scene =
  sceneObject3D :: Object3D
  querySelectorAll :: "string \<Rightarrow> Object3D list"
  aCursor :: ACursor
  tunnel :: bool
  urlVR :: bool
  xrPresenting :: bool
  documentHidden :: bool
  cameraFound :: bool
  rigTransform :: Transform
  canvasWidth :: real
  canvasHeight :: real
  canvasLeft :: real
  canvasTop :: real
  pointerRaycaster :: "real \<Rightarrow> real \<Rightarrow> Raycaster"
  slerpQuaternions :: "Quaternion \<Rightarrow> Quaternion \<Rightarrow> real \<Rightarrow> Quaternion"

section \<open>The component \<^verbatim>\<open>a-cursor-teleport\<close>\<close>

record Data =
  collisionEntities :: string
  ignoreEntities :: string
  landingMaxAngle :: real
  landingNormal :: Vector3
  transitionSpeed :: real
  alignToSurface :: bool
  rotationSmoothing :: real

definition default_data :: Data where
  "default_data = \<lparr> collisionEntities = ''[navmesh]'', ignoreEntities = [],
     landingMaxAngle = 45, landingNormal = Vector3 0 1 0, transitionSpeed = 6 / 10000,
     alignToSurface = True, rotationSmoothing = 1 \<rparr>"

datatype EventTarget = SceneEl | Document | Window | CursorElement | Canvas

datatype Handler =
  OnEnterVR | OnExitVR | OnVisibilityChange | CursorClickHandler | HideCursor
  | MouseMove | MouseDown | MouseUp

type_synonym Listener = "EventTarget \<times> string \<times> Handler"

text \<open>The animation attribute last set on the tunnel element.\<close>

datatype TunnelAnim = TunnelReset | TunnelDown | TunnelUp

record State =
  data :: Data
  isVR :: bool
  cam :: bool
  canvas :: bool
  userData :: "ObjId \<Rightarrow> UserData"
  rayCastObjects :: "Object3D list"
  allSceneMeshes :: "Object3D list option"
  collisionMesh :: "Object3D option"
  lastCollisionCount :: nat
  lastRaycastCount :: nat
  collisionObjectNormalMatrix :: Matrix3
  collisionWorldNormal :: Vector3
  referenceNormal :: Vector3
  transitioning :: bool
  transitionProgress :: real
  transitionCamPosStart :: Vector3
  transitionCamPosEnd :: Vector3
  transitionRotStart :: Quaternion
  transitionRotEnd :: Quaternion
  targetSurfaceNormal :: Vector3
  tempVector3 :: Vector3
  tempVector3_2 :: Vector3
  teleportQuaternion :: Quaternion
  upVector :: Vector3
  camRig :: Transform
  teleportIndicator :: Indicator
  lastTeleportCheck :: real
  cachedTeleportPos :: "Vector3 option"
  teleportCheckInterval :: real
  lastRaycastUpdate :: "real option"
  mousePosition :: "real \<times> real"
  mouseOriginalPosition :: "real \<times> real"
  cursorEl :: bool
  cursorRaycaster :: bool
  cursorClickHandler :: bool
  cursorSetupRetried :: bool
  pendingCursorRetry :: nat
  tunnelElement :: "TunnelAnim option"
  vrTransitionReady :: bool
  listeners :: "Listener list"
  emitted :: "string list"
  console :: "string list"

subsection \<open>The raycast registry: \<^verbatim>\<open>updateRaycastObjects\<close>\<close>

definition defaultCollisionPlane :: Object3D where
  "defaultCollisionPlane = Object3D DefaultCollisionPlane True True identity4 []"

text \<open>
  The callback of the collision loop:
  \<^verbatim>\<open>if (obj.isMesh) { obj.userData.collision = true; obj.userData.isNavmesh = true;
  this.rayCastObjects.push(obj); }\<close>
\<close>

definition markNavmesh :: "Object3D \<Rightarrow> State \<Rightarrow> State" where
  "markNavmesh obj st =
     (if isMesh obj
      then st\<lparr> userData := (userData st)
                   (uuid obj := (userData st (uuid obj))\<lparr> collision := True, isNavmesh := True \<rparr>),
                rayCastObjects := rayCastObjects st @ [obj] \<rparr>
      else st)"

text \<open>
  The callback of the ignore loop:
  \<^verbatim>\<open>if (obj.isMesh) { this.rayCastObjects.push(obj); }\<close>
\<close>

definition pushIgnored :: "Object3D \<Rightarrow> State \<Rightarrow> State" where
  "pushIgnored obj st =
     (if isMesh obj then st\<lparr> rayCastObjects := rayCastObjects st @ [obj] \<rparr> else st)"

definition lost_warning :: string where
  "lost_warning = ''navigation-05: CRITICAL - Lost all collision objects! VR teleportation disabled.''"

text \<open>The meshes collected for the occlusion test: visible and not flagged as excluded.\<close>

definition sceneMeshes :: "Scene \<Rightarrow> State \<Rightarrow> Object3D list" where
  "sceneMeshes sc st =
     filter (\<lambda>obj. isMesh obj \<and> obj_visible obj \<and> \<not> raycastExclude (userData st (uuid obj)))
       (traverse (sceneObject3D sc))"

definition updateRaycastObjects :: "Scene \<Rightarrow> State \<Rightarrow> State" where
  "updateRaycastObjects sc st =
     (let previousCount = length (rayCastObjects st);
          st1 = st\<lparr> rayCastObjects := [], allSceneMeshes := Some (sceneMeshes sc st) \<rparr>;
          st2 = (if collisionEntities (data st1) \<noteq> []
                 then (let ents = querySelectorAll sc (collisionEntities (data st1))
                       in fold (\<lambda>entity. fold markNavmesh (traverse entity)) ents
                            (st1\<lparr> lastCollisionCount := length ents \<rparr>))
                 else (case collisionMesh st1 of
                         None \<Rightarrow>
                           st1\<lparr> collisionMesh := Some defaultCollisionPlane,
                                userData := (userData st1)
                                  (DefaultCollisionPlane :=
                                     (userData st1 DefaultCollisionPlane)\<lparr> collision := True \<rparr>),
                                rayCastObjects := rayCastObjects st1 @ [defaultCollisionPlane] \<rparr>
                       | Some m \<Rightarrow> st1\<lparr> rayCastObjects := rayCastObjects st1 @ [m] \<rparr>));
          st3 = (if length (rayCastObjects st2) = 0 \<and> previousCount > 0
                 then st2\<lparr> console := console st2 @ [lost_warning] \<rparr> else st2);
          st4 = st3\<lparr> lastRaycastCount := length (rayCastObjects st3) \<rparr>
      in if ignoreEntities (data st4) \<noteq> []
         then fold (\<lambda>entity. fold pushIgnored (traverse entity))
                (querySelectorAll sc (ignoreEntities (data st4))) st4
         else st4)"

subsection \<open>The hit resolver\<close>

record Landing =
  point :: Vector3
  normal :: Vector3

text \<open>
  \<^verbatim>\<open>isValidNormalsAngle(normal, object)\<close>: the answer, and the two scratch objects
  it overwrites.
\<close>

definition isValidNormalsAngle :: "Vector3 \<Rightarrow> Object3D \<Rightarrow> State \<Rightarrow> bool \<times> State" where
  "isValidNormalsAngle nrm obj st =
     (let nm = getNormalMatrix (matrixWorld obj);
          wn = applyNormalMatrix nrm nm;
          angle = angleTo (referenceNormal st) wn
      in (RAD2DEG * angle \<le> landingMaxAngle (data st),
          st\<lparr> collisionObjectNormalMatrix := nm, collisionWorldNormal := wn \<rparr>))"

text \<open>
  The checks both resolvers run on the intersection they picked: the surface angle, the
  explicit collision flag, then the world normal written into \<^verbatim>\<open>tempVector3\<close>.  The
  \<^verbatim>\<open>normal\<close> of the returned landing is that scratch vector; its value at the moment of
  the return is recorded in the result.
\<close>

definition validateIntersect :: "Intersection \<Rightarrow> State \<Rightarrow> Landing option \<times> State" where
  "validateIntersect intersect st =
     (let (ok, st1) = isValidNormalsAngle (face_normal intersect) (hit_object intersect) st
      in if \<not> ok \<or> \<not> collision (userData st1 (uuid (hit_object intersect)))
         then (None, st1)
         else (let nm = getNormalMatrix (matrixWorld (hit_object intersect));
                   worldNormal = normalize (applyMatrix3 (face_normal intersect) nm)
               in (Some \<lparr> point = hit_point intersect, normal = worldNormal \<rparr>,
                   st1\<lparr> collisionObjectNormalMatrix := nm, tempVector3 := worldNormal \<rparr>)))"

text \<open>
  \<^verbatim>\<open>getTeleportPositionFromCursor()\<close>.  \<open>None\<close> stands for the \<^verbatim>\<open>false\<close> the
  code returns.  The cached raycaster component and the one of the cursor element are the
  same object.
\<close>

definition getTeleportPositionFromCursor :: "Scene \<Rightarrow> State \<Rightarrow> Landing option \<times> State" where
  "getTeleportPositionFromCursor sc st =
     (case (if cursorRaycaster st \<or> cursorEl st then elRaycaster (aCursor sc) else None) of
        None \<Rightarrow> (None, st)
      | Some raycaster \<Rightarrow>
          (let st0 = st\<lparr> cursorRaycaster := True \<rparr>
           in if length (rayCastObjects st0) = 0 then (None, st0)
              else (case raycaster (case allSceneMeshes st0 of None \<Rightarrow> [] | Some ms \<Rightarrow> ms) True of
                      [] \<Rightarrow> (None, st0)
                    | firstHit # further \<Rightarrow>
                        if \<not> isNavmesh (userData st0 (uuid (hit_object firstHit)))
                        then (None, st0)
                        else validateIntersect firstHit st0)))"

text \<open>
  The legacy resolver \<^verbatim>\<open>getTeleportPosition()(x, y)\<close> for screen coordinates: it
  intersects the registry list only.
\<close>

definition getTeleportPosition :: "Scene \<Rightarrow> real \<Rightarrow> real \<Rightarrow> State \<Rightarrow> Landing option \<times> State" where
  "getTeleportPosition sc x y st =
     (if length (rayCastObjects st) = 0 \<or> \<not> cam st \<or> \<not> canvas st then (None, st)
      else (let ndcx = (x / canvasWidth sc) * 2 - 1;
                ndcy = - (y / canvasHeight sc) * 2 + 1
            in case pointerRaycaster sc ndcx ndcy (rayCastObjects st) True of
                 [] \<Rightarrow> (None, st)
               | intersect # further \<Rightarrow> validateIntersect intersect st))"

subsection \<open>The transition controller\<close>

text \<open>
  \<^verbatim>\<open>transition(positionData, targetQuaternion)\<close> accepts a landing (with
  \<^verbatim>\<open>point\<close> and \<^verbatim>\<open>normal\<close>) or a bare position.
\<close>

datatype PositionData = WithNormal Landing | BarePosition Vector3

definition triggerTunnelAnimation :: "State \<Rightarrow> State" where
  "triggerTunnelAnimation st =
     (case tunnelElement st of None \<Rightarrow> st | Some a \<Rightarrow> st\<lparr> tunnelElement := Some TunnelDown \<rparr>)"

definition triggerTunnelUpAnimation :: "State \<Rightarrow> State" where
  "triggerTunnelUpAnimation st =
     (case tunnelElement st of None \<Rightarrow> st | Some a \<Rightarrow> st\<lparr> tunnelElement := Some TunnelUp \<rparr>)"

definition transition :: "PositionData \<Rightarrow> Quaternion option \<Rightarrow> State \<Rightarrow> State" where
  "transition positionData targetQuaternion st =
     (let st1 = st\<lparr> transitionProgress := 0 \<rparr>;
          st2 = (case positionData of
                   WithNormal l \<Rightarrow>
                     st1\<lparr> transitionCamPosEnd := point l, targetSurfaceNormal := normal l \<rparr>
                 | BarePosition p \<Rightarrow>
                     st1\<lparr> transitionCamPosEnd := p, targetSurfaceNormal := Vector3 0 1 0 \<rparr>);
          st3 = st2\<lparr> transitionCamPosStart := position (camRig st2),
                     transitioning := True,
                     emitted := emitted st2 @ [''navigation-start''],
                     transitionRotStart := quaternion (camRig st2) \<rparr>;
          st4 = (case targetQuaternion of
                   Some q \<Rightarrow> st3\<lparr> transitionRotEnd := q \<rparr>
                 | None \<Rightarrow>
                     (case positionData of
                        WithNormal l \<Rightarrow>
                          if alignToSurface (data st3)
                          then st3\<lparr> transitionRotEnd :=
                                 setFromUnitVectors (upVector st3) (targetSurfaceNormal st3) \<rparr>
                          else st3\<lparr> transitionRotEnd := quaternion (camRig st3) \<rparr>
                      | BarePosition p \<Rightarrow> st3\<lparr> transitionRotEnd := quaternion (camRig st3) \<rparr>))
      in if isVR st4 \<and> tunnelElement st4 \<noteq> None then triggerTunnelAnimation st4 else st4)"

definition hideCursor :: "State \<Rightarrow> State" where
  "hideCursor st = st\<lparr> teleportIndicator := (teleportIndicator st)\<lparr> visible := False \<rparr> \<rparr>"

text \<open>
  What a confirmed landing does, in the cursor click handler and in
  \<^verbatim>\<open>mouseUp\<close> alike: move the indicator to the point, compute the target orientation
  when surface alignment is on, and start the transition.
\<close>

definition confirmLanding :: "Landing \<Rightarrow> State \<Rightarrow> State" where
  "confirmLanding teleportData st =
     (let st1 = st\<lparr> teleportIndicator :=
                       (teleportIndicator st)\<lparr> position := point teleportData \<rparr> \<rparr>
      in if alignToSurface (data st1)
         then (let q = setFromUnitVectors (upVector st1) (normal teleportData)
               in transition (WithNormal teleportData) (Some q) (st1\<lparr> teleportQuaternion := q \<rparr>))
         else transition (WithNormal teleportData) None st1)"

definition cursorClick :: "Scene \<Rightarrow> State \<Rightarrow> State" where
  "cursorClick sc st =
     (case getTeleportPositionFromCursor sc st of
        (None, st1) \<Rightarrow> st1
      | (Some teleportData, st1) \<Rightarrow> confirmLanding teleportData st1)"

subsection \<open>The frame callback\<close>

text \<open>
  The hover preview of \<^verbatim>\<open>tick\<close>, run only while no transition is in progress.  The
  \<^verbatim>\<open>normal\<close> of a landing is the scratch vector \<^verbatim>\<open>tempVector3\<close> itself, so the
  scaling by \<open>0.01\<close> acts on it in place and the cached point alone is stored.
\<close>

definition updateIndicator :: "Scene \<Rightarrow> real \<Rightarrow> State \<Rightarrow> State" where
  "updateIndicator sc time st =
     (let (teleportPos, st1) =
            (if time - lastTeleportCheck st > teleportCheckInterval st
             then (let (res, s) = getTeleportPositionFromCursor sc st
                   in (map_option point res,
                       s\<lparr> cachedTeleportPos := map_option point res, lastTeleportCheck := time \<rparr>))
             else (cachedTeleportPos st, st))
      in case teleportPos of
           None \<Rightarrow> st1\<lparr> teleportIndicator := (teleportIndicator st1)\<lparr> visible := False \<rparr> \<rparr>
         | Some pos \<Rightarrow>
             if alignToSurface (data st1)
             then (let scaled = multiplyScalar (tempVector3 st1) (1 / 100);
                       offsetPosition = add3 pos scaled;
                       q = setFromUnitVectors (upVector st1) scaled
                   in st1\<lparr> tempVector3 := scaled, tempVector3_2 := offsetPosition,
                           teleportQuaternion := q,
                           teleportIndicator := (teleportIndicator st1)
                             \<lparr> visible := True, position := offsetPosition, quaternion := q \<rparr> \<rparr>)
             else st1\<lparr> teleportIndicator := (teleportIndicator st1)
                         \<lparr> visible := True, position := pos, quaternion := identityQ \<rparr> \<rparr>)"

text \<open>The animation step of \<^verbatim>\<open>tick\<close>, run while a transition is in progress.\<close>

definition advanceTransition :: "Scene \<Rightarrow> real \<Rightarrow> State \<Rightarrow> State" where
  "advanceTransition sc deltaTime st =
     (let progress = transitionProgress st + deltaTime * transitionSpeed (data st);
          easedProgress = easeInOutQuad progress;
          st1 = st\<lparr> transitionProgress := progress,
                    camRig := (camRig st)\<lparr> position :=
                      lerpVectors (transitionCamPosStart st) (transitionCamPosEnd st) easedProgress \<rparr> \<rparr>;
          st2 = (if alignToSurface (data st1)
                 then st1\<lparr> camRig := (camRig st1)\<lparr> quaternion :=
                        slerpQuaternions sc (transitionRotStart st1) (transitionRotEnd st1)
                          (min (easedProgress * rotationSmoothing (data st1)) 1) \<rparr> \<rparr>
                 else st1)
      in if transitionProgress st2 \<ge> 1
         then (let st3 = st2\<lparr> transitioning := False,
                               camRig := (camRig st2)\<lparr> position := transitionCamPosEnd st2 \<rparr> \<rparr>;
                   st4 = (if alignToSurface (data st3)
                          then st3\<lparr> camRig := (camRig st3)\<lparr> quaternion := transitionRotEnd st3 \<rparr> \<rparr>
                          else st3);
                   st5 = st4\<lparr> emitted := emitted st4 @ [''navigation-end''] \<rparr>
               in if isVR st5 \<and> tunnelElement st5 \<noteq> None
                  then triggerTunnelUpAnimation st5 else st5)
         else st2)"

text \<open>
  The first block of \<^verbatim>\<open>tick\<close>: the registry is rebuilt when it never was (or was
  at time 0) and then every 15 seconds.
\<close>

definition refreshRegistry :: "Scene \<Rightarrow> real \<Rightarrow> State \<Rightarrow> State" where
  "refreshRegistry sc time st =
     (if (case lastRaycastUpdate st of
            None \<Rightarrow> True
          | Some t \<Rightarrow> t = 0 \<or> time - t > 15000)
      then (updateRaycastObjects sc st)\<lparr> lastRaycastUpdate := Some time \<rparr>
      else st)"

text \<open>
  \<^verbatim>\<open>tick(time, deltaTime)\<close>: the registry refresh, the hover preview while idle, the
  animation while transitioning.  The debug statistics are left out.
\<close>

definition tick :: "Scene \<Rightarrow> real \<Rightarrow> real \<Rightarrow> State \<Rightarrow> State" where
  "tick sc time deltaTime st =
     (let st1 = refreshRegistry sc time st;
          st2 = (if \<not> transitioning st1 then updateIndicator sc time st1 else st1)
      in if transitioning st2 then advanceTransition sc deltaTime st2 else st2)"

subsection \<open>Listeners and lifecycle\<close>

record Event =
  ev_target :: EventTarget
  ev_type :: string
  clientX :: "real option"
  clientY :: real
  touch0 :: "(real \<times> real) option"

definition initializeTunnelForVR :: "Scene \<Rightarrow> State \<Rightarrow> State" where
  "initializeTunnelForVR sc st =
     (let st1 = (if tunnelElement st = None \<and> tunnel sc
                 then st\<lparr> tunnelElement := Some TunnelReset \<rparr> else st);
          st2 = (case tunnelElement st1 of
                   None \<Rightarrow> st1
                 | Some a \<Rightarrow> st1\<lparr> tunnelElement := Some TunnelReset \<rparr>)
      in st2\<lparr> vrTransitionReady := True \<rparr>)"

text \<open>
  \<^verbatim>\<open>setupCursor()\<close>: when the cursor element and its raycaster are there, the click
  handler is (re)registered on the cursor element; otherwise one retry is scheduled.
\<close>

definition setupCursor :: "Scene \<Rightarrow> State \<Rightarrow> State" where
  "setupCursor sc st =
     (let st1 = st\<lparr> cursorEl := (aCursor sc \<noteq> NoCursorEl) \<rparr>
      in if elRaycaster (aCursor sc) \<noteq> None
         then st1\<lparr> cursorRaycaster := True,
                   cursorClickHandler := True,
                   listeners :=
                     filter (\<lambda>l. l \<noteq> (CursorElement, ''click'', CursorClickHandler)) (listeners st1)
                     @ [(CursorElement, ''click'', CursorClickHandler)] \<rparr>
         else if \<not> cursorSetupRetried st1
              then st1\<lparr> cursorSetupRetried := True,
                        pendingCursorRetry := Suc (pendingCursorRetry st1) \<rparr>
              else st1)"

text \<open>The timer scheduled by \<^verbatim>\<open>setupCursor\<close> fires.\<close>

definition cursorRetryTimer :: "Scene \<Rightarrow> State \<Rightarrow> State" where
  "cursorRetryTimer sc st =
     (if pendingCursorRetry st = 0 then st
      else setupCursor sc (st\<lparr> pendingCursorRetry := pendingCursorRetry st - 1 \<rparr>))"

text \<open>
  \<^verbatim>\<open>getMouseState()(event)\<close> writes the canvas coordinates of the event into
  \<^verbatim>\<open>mousePosition\<close> and returns that same object, or returns nothing.
\<close>

definition getMouseState :: "Scene \<Rightarrow> Event \<Rightarrow> State \<Rightarrow> bool \<times> State" where
  "getMouseState sc event st =
     (case clientX event of
        Some x \<Rightarrow> (True, st\<lparr> mousePosition := (x - canvasLeft sc, clientY event - canvasTop sc) \<rparr>)
      | None \<Rightarrow>
          (case touch0 event of
             Some (tx, ty) \<Rightarrow> (True, st\<lparr> mousePosition := (tx - canvasLeft sc, ty - canvasTop sc) \<rparr>)
           | None \<Rightarrow> (False, st)))"

definition mouseMove :: "Scene \<Rightarrow> Event \<Rightarrow> State \<Rightarrow> State" where
  "mouseMove sc event st = snd (getMouseState sc event st)"

definition mouseDown :: "Scene \<Rightarrow> Event \<Rightarrow> State \<Rightarrow> State" where
  "mouseDown sc event st =
     (let (found, st1) = getMouseState sc event (updateRaycastObjects sc st)
      in if found then st1\<lparr> mouseOriginalPosition := mousePosition st1 \<rparr> else st1)"

definition mouseUp :: "Scene \<Rightarrow> Event \<Rightarrow> State \<Rightarrow> State" where
  "mouseUp sc event st =
     (if mousePosition st = mouseOriginalPosition st
      then (case getTeleportPosition sc (fst (mousePosition st)) (snd (mousePosition st)) st of
              (None, st1) \<Rightarrow> st1
            | (Some teleportData, st1) \<Rightarrow> confirmLanding teleportData st1)
      else st)"

definition onEnterVR :: "Scene \<Rightarrow> State \<Rightarrow> State" where
  "onEnterVR sc st =
     (setupCursor sc
        (initializeTunnelForVR sc
           (st\<lparr> isVR := True, transitioning := False, transitionProgress := 0 \<rparr>)))
      \<lparr> vrTransitionReady := True \<rparr>"

definition onVisibilityChange :: "Scene \<Rightarrow> State \<Rightarrow> State" where
  "onVisibilityChange sc st =
     (if \<not> documentHidden sc \<and> isVR st then setupCursor sc st else st)"

fun runHandler :: "Handler \<Rightarrow> Scene \<Rightarrow> Event \<Rightarrow> State \<Rightarrow> State" where
  "runHandler OnEnterVR sc ev st = onEnterVR sc st"
| "runHandler OnExitVR sc ev st = st\<lparr> isVR := False \<rparr>"
| "runHandler OnVisibilityChange sc ev st = onVisibilityChange sc st"
| "runHandler CursorClickHandler sc ev st = cursorClick sc st"
| "runHandler HideCursor sc ev st = hideCursor st"
| "runHandler MouseMove sc ev st = mouseMove sc ev st"
| "runHandler MouseDown sc ev st = mouseDown sc ev st"
| "runHandler MouseUp sc ev st = mouseUp sc ev st"

text \<open>
  An event runs the handlers registered for its target and type at the moment it is
  dispatched, in the order of their registration.
\<close>

definition invoked :: "Event \<Rightarrow> State \<Rightarrow> Handler list" where
  "invoked ev st =
     map (\<lambda>l. snd (snd l))
       (filter (\<lambda>l. fst l = ev_target ev \<and> fst (snd l) = ev_type ev) (listeners st))"

definition dispatchEvent :: "Scene \<Rightarrow> Event \<Rightarrow> State \<Rightarrow> State" where
  "dispatchEvent sc ev st = fold (\<lambda>h. runHandler h sc ev) (invoked ev st) st"

text \<open>
  \<^verbatim>\<open>init()\<close>, in the order of the code: the VR check, the session listeners, the
  camera, the reusable objects, the hover cache, the indicator, the mouse fields, the
  binding of the methods (which has no effect on the state), the first registry build and
  the cursor setup.  The flags already present on the scene objects are given.
\<close>

definition init :: "Scene \<Rightarrow> Data \<Rightarrow> (ObjId \<Rightarrow> UserData) \<Rightarrow> State" where
  "init sc d flags =
     setupCursor sc (updateRaycastObjects sc
       \<lparr> data = d,
         isVR = (urlVR sc \<or> xrPresenting sc),
         cam = cameraFound sc,
         canvas = True,
         userData = flags,
         rayCastObjects = [],
         allSceneMeshes = None,
         collisionMesh = None,
         lastCollisionCount = 0,
         lastRaycastCount = 0,
         collisionObjectNormalMatrix = Matrix3 1 0 0 0 1 0 0 0 1,
         collisionWorldNormal = Vector3 0 0 0,
         referenceNormal = landingNormal d,
         transitioning = False,
         transitionProgress = 0,
         transitionCamPosStart = Vector3 0 0 0,
         transitionCamPosEnd = Vector3 0 0 0,
         transitionRotStart = identityQ,
         transitionRotEnd = identityQ,
         targetSurfaceNormal = Vector3 0 1 0,
         tempVector3 = Vector3 0 0 0,
         tempVector3_2 = Vector3 0 0 0,
         teleportQuaternion = identityQ,
         upVector = Vector3 0 1 0,
         camRig = rigTransform sc,
         teleportIndicator = \<lparr> position = Vector3 0 0 0, quaternion = identityQ, visible = False \<rparr>,
         lastTeleportCheck = 0,
         cachedTeleportPos = None,
         teleportCheckInterval = 16,
         lastRaycastUpdate = None,
         mousePosition = (0, 0),
         mouseOriginalPosition = (0, 0),
         cursorEl = False,
         cursorRaycaster = False,
         cursorClickHandler = False,
         cursorSetupRetried = False,
         pendingCursorRetry = 0,
         tunnelElement = None,
         vrTransitionReady = False,
         listeners = [(SceneEl, ''enter-vr'', OnEnterVR), (SceneEl, ''exit-vr'', OnExitVR),
                      (Document, ''visibilitychange'', OnVisibilityChange)],
         emitted = [],
         console = [] \<rparr>)"

definition play :: "Scene \<Rightarrow> State \<Rightarrow> State" where
  "play sc st =
     (let st1 = setupCursor sc st;
          st2 = st1\<lparr> listeners :=
                  (if (Window, ''keydown'', HideCursor) \<in> set (listeners st1) then listeners st1
                   else listeners st1 @ [(Window, ''keydown'', HideCursor)]) \<rparr>
      in if isVR st2 then initializeTunnelForVR sc st2 else st2)"

definition pause :: "State \<Rightarrow> State" where
  "pause st =
     (hideCursor (st\<lparr> transitioning := False \<rparr>))
       \<lparr> listeners := filter (\<lambda>l. l \<noteq> (Window, ''keydown'', HideCursor)) (listeners st) \<rparr>"

text \<open>
  The components \<^verbatim>\<open>navmesh\<close> and \<^verbatim>\<open>raycast-exclude\<close> mark the meshes below their
  entity when they are initialised.
\<close>

definition navmesh_init :: "Object3D \<Rightarrow> (ObjId \<Rightarrow> UserData) \<Rightarrow> (ObjId \<Rightarrow> UserData)" where
  "navmesh_init el flags =
     fold (\<lambda>obj f. if isMesh obj then f(uuid obj := (f (uuid obj))\<lparr> collision := True \<rparr>) else f)
       (traverse el) flags"

definition raycast_exclude_init :: "Object3D \<Rightarrow> (ObjId \<Rightarrow> UserData) \<Rightarrow> (ObjId \<Rightarrow> UserData)" where
  "raycast_exclude_init el flags =
     fold (\<lambda>obj f. if isMesh obj then f(uuid obj := (f (uuid obj))\<lparr> raycastExclude := True \<rparr>) else f)
       (traverse el) flags"

text \<open>
  The states the component goes through between its initialisation and its removal: the
  host calls the lifecycle hooks and the frame callback, dispatches events, fires the retry
  timer, and other components mark scene objects.
\<close>

inductive reachable :: "State \<Rightarrow> bool" where
  reach_init: "reachable (init sc d flags)"
| reach_play: "reachable st \<Longrightarrow> reachable (play sc st)"
| reach_pause: "reachable st \<Longrightarrow> reachable (pause st)"
| reach_tick: "reachable st \<Longrightarrow> reachable (tick sc time deltaTime st)"
| reach_event: "reachable st \<Longrightarrow> reachable (dispatchEvent sc ev st)"
| reach_timer: "reachable st \<Longrightarrow> reachable (cursorRetryTimer sc st)"
| reach_navmesh: "reachable st \<Longrightarrow> reachable (st\<lparr> userData := navmesh_init el (userData st) \<rparr>)"
| reach_exclude: "reachable st \<Longrightarrow> reachable (st\<lparr> userData := raycast_exclude_init el (userData st) \<rparr>)"

section \<open>Derived notions used in the statements\<close>

text \<open>The meshes below a list of entities, in traversal order.\<close>

definition meshesOf :: "Object3D list \<Rightarrow> Object3D list" where
  "meshesOf ents = filter isMesh (concat (map traverse ents))"

text \<open>The flags the collision loop leaves behind on a list of visited objects.\<close>

definition markFlags :: "Object3D list \<Rightarrow> (ObjId \<Rightarrow> UserData) \<Rightarrow> (ObjId \<Rightarrow> UserData)" where
  "markFlags objs flags =
     fold (\<lambda>obj f. if isMesh obj
             then f(uuid obj := (f (uuid obj))\<lparr> collision := True, isNavmesh := True \<rparr>) else f)
       objs flags"

text \<open>The list a rebuild leaves in \<^verbatim>\<open>rayCastObjects\<close>.\<close>

definition registry :: "Scene \<Rightarrow> State \<Rightarrow> Object3D list" where
  "registry sc st =
     (if collisionEntities (data st) \<noteq> []
      then meshesOf (querySelectorAll sc (collisionEntities (data st)))
      else [case collisionMesh st of None \<Rightarrow> defaultCollisionPlane | Some m \<Rightarrow> m])
     @ (if ignoreEntities (data st) \<noteq> []
        then meshesOf (querySelectorAll sc (ignoreEntities (data st))) else [])"

text \<open>
  The intersections the cursor resolver obtains for its ray query: those of the cursor's
  raycaster with the occlusion list of the registry, nearest first; none when the component
  has no cursor raycaster.
\<close>

definition cursorIntersections :: "Scene \<Rightarrow> State \<Rightarrow> Intersection list" where
  "cursorIntersections sc st =
     (case (if cursorRaycaster st \<or> cursorEl st then elRaycaster (aCursor sc) else None) of
        None \<Rightarrow> []
      | Some raycaster \<Rightarrow>
          raycaster (case allSceneMeshes st of None \<Rightarrow> [] | Some ms \<Rightarrow> ms) True)"

text \<open>The surface normal in world space, as both resolvers compute it for their result.\<close>

definition worldNormalOf :: "Intersection \<Rightarrow> Vector3" where
  "worldNormalOf h =
     normalize (applyMatrix3 (face_normal h) (getNormalMatrix (matrixWorld (hit_object h))))"

text \<open>The angle in degrees that \<^verbatim>\<open>isValidNormalsAngle\<close> compares with the maximum.\<close>

definition landingAngle :: "State \<Rightarrow> Intersection \<Rightarrow> real" where
  "landingAngle st h =
     RAD2DEG * angleTo (referenceNormal st)
       (applyNormalMatrix (face_normal h) (getNormalMatrix (matrixWorld (hit_object h))))"

text \<open>A run of frames: each with the scene of its moment, its time and its delta.\<close>

definition frames :: "(Scene \<times> real \<times> real) list \<Rightarrow> State \<Rightarrow> State" where
  "frames fs st = fold (\<lambda>(sc, time, deltaTime). tick sc time deltaTime) fs st"

section \<open>Example scenes\<close>

text \<open>
  A floor plane tagged as navmesh (a plane rotated by -90 degrees about the x axis, so its
  local face normal \<open>(0, 0, 1)\<close> points up in the world), a box, and a ramp whose face
  normal is horizontal.  Each entity is a group with one mesh below it.
\<close>

definition noFlags :: "ObjId \<Rightarrow> UserData" where
  "noFlags = (\<lambda>i. \<lparr> collision = False, isNavmesh = False, raycastExclude = False \<rparr>)"

definition floorMatrix :: Matrix4 where
  "floorMatrix = Matrix4 1 0 0 0  0 0 (- 1) 0  0 1 0 0  0 0 0 1"

definition floorMesh :: Object3D where
  "floorMesh = Object3D (SceneObject 1) True True floorMatrix []"

definition floorEl :: Object3D where
  "floorEl = Object3D (SceneObject 2) False True floorMatrix [floorMesh]"

definition boxMesh :: Object3D where
  "boxMesh = Object3D (SceneObject 3) True True identity4 []"

definition boxEl :: Object3D where
  "boxEl = Object3D (SceneObject 4) False True identity4 [boxMesh]"

definition rampMesh :: Object3D where
  "rampMesh = Object3D (SceneObject 5) True True identity4 []"

definition rampEl :: Object3D where
  "rampEl = Object3D (SceneObject 6) False True identity4 [rampMesh]"

definition sceneRoot :: Object3D where
  "sceneRoot = Object3D (SceneObject 0) False True identity4 [floorEl, boxEl, rampEl]"

definition floorHit :: Intersection where
  "floorHit = Intersection 3 (Vector3 0 0 0) (Vector3 0 0 1) floorMesh"

definition boxHit :: Intersection where
  "boxHit = Intersection 1 (Vector3 0 2 0) (Vector3 0 1 0) boxMesh"

definition rampHit :: Intersection where
  "rampHit = Intersection 2 (Vector3 0 1 0) (Vector3 1 0 0) rampMesh"

text \<open>
  A raycaster whose ray crosses the given surfaces, listed nearest first: it reports the
  intersections with the objects it is asked about.
\<close>

definition rayThrough :: "Intersection list \<Rightarrow> Raycaster" where
  "rayThrough hits objs recursive = filter (\<lambda>h. hit_object h \<in> set objs) hits"

definition nlerp :: "Quaternion \<Rightarrow> Quaternion \<Rightarrow> real \<Rightarrow> Quaternion" where
  "nlerp qa qb t =
     (if t = 0 then qa else if t = 1 then qb
      else normalizeQ (Quaternion (qx qa + (qx qb - qx qa) * t) (qy qa + (qy qb - qy qa) * t)
                                  (qz qa + (qz qb - qz qa) * t) (qw qa + (qw qb - qw qa) * t)))"

text \<open>
  The example host: the floor and the ramp match the collision selector
  \<^verbatim>\<open>[navmesh]\<close>, the box matches the selector \<^verbatim>\<open>.wall\<close>; the cursor's ray crosses
  the given surfaces.
\<close>

definition demoScene :: "Intersection list \<Rightarrow> Scene" where
  "demoScene hits =
     \<lparr> sceneObject3D = sceneRoot,
       querySelectorAll = (\<lambda>sel. if sel = ''[navmesh]'' then [floorEl, rampEl]
                                 else if sel = ''.wall'' then [boxEl] else []),
       aCursor = CursorEl (Some (rayThrough hits)),
       tunnel = False, urlVR = False, xrPresenting = False, documentHidden = False,
       cameraFound = True,
       rigTransform = \<lparr> position = Vector3 0 0 5, quaternion = identityQ \<rparr>,
       canvasWidth = 800, canvasHeight = 600, canvasLeft = 0, canvasTop = 0,
       pointerRaycaster = (\<lambda>x y. rayThrough hits),
       slerpQuaternions = nlerp \<rparr>"

text \<open>The same host after the floor and the ramp lost their navmesh tag.\<close>

definition untaggedScene :: "Intersection list \<Rightarrow> Scene" where
  "untaggedScene hits = (demoScene hits)\<lparr> querySelectorAll := (\<lambda>sel. []) \<rparr>"

definition wallData :: Data where
  "wallData = default_data\<lparr> ignoreEntities := ''.wall'' \<rparr>"

definition clickEvent :: Event where
  "clickEvent = \<lparr> ev_target = CursorElement, ev_type = ''click'', clientX = None, clientY = 0,
                  touch0 = None \<rparr>"

text \<open>
  The flags before the teleport component starts: the \<^verbatim>\<open>navmesh\<close> components of the
  floor and the ramp have marked their meshes.  Then the component is initialised.
\<close>

definition demoFlags :: "ObjId \<Rightarrow> UserData" where
  "demoFlags = navmesh_init rampEl (navmesh_init floorEl noFlags)"

definition demoState :: "Intersection list \<Rightarrow> Data \<Rightarrow> State" where
  "demoState hits d = init (demoScene hits) d demoFlags"

text \<open>
  The first frame comes after the floor and the ramp lost their tag: the registry is
  rebuilt, the selector matches nothing any more, while the meshes are still in the scene
  and keep their flags.
\<close>

definition staleState :: State where
  "staleState = tick (untaggedScene [floorHit]) 100 16 (demoState [floorHit] default_data)"

section \<open>Invariants and example runs\<close>

text \<open>The listeners the component ever registers.\<close>

definition registered :: "Listener set" where
  "registered =
     {(SceneEl, ''enter-vr'', OnEnterVR), (SceneEl, ''exit-vr'', OnExitVR),
      (Document, ''visibilitychange'', OnVisibilityChange),
      (CursorElement, ''click'', CursorClickHandler), (Window, ''keydown'', HideCursor)}"

text \<open>
  While a transition runs without surface alignment, the rig keeps the orientation that was
  recorded as the end orientation when the transition started.
\<close>

definition orientation_settled :: "State \<Rightarrow> bool" where
  "orientation_settled st =
     (if transitioning st \<and> \<not> alignToSurface (data st)
      then quaternion (camRig st) = transitionRotEnd st else True)"

text \<open>
  What the resolver needs to land on the example floor: a registry that is not empty, the
  three meshes in the occlusion list, the cursor raycaster, the flags of the floor mesh, no
  excluded object, and the default configuration.
\<close>

definition floorReady :: "State \<Rightarrow> bool" where
  "floorReady st =
     (rayCastObjects st \<noteq> [] \<and> allSceneMeshes st = Some [floorMesh, boxMesh, rampMesh]
      \<and> cursorRaycaster st
      \<and> isNavmesh (userData st (SceneObject 1)) \<and> collision (userData st (SceneObject 1))
      \<and> (\<forall>i. raycastExclude (userData st i) = False)
      \<and> referenceNormal st = Vector3 0 1 0 \<and> data st = default_data)"

text \<open>
  An example run: the cursor rests on the floor for one idle frame, the user clicks, and
  the transition runs for one second.
\<close>

definition hoverState :: State where
  "hoverState = tick (demoScene [floorHit]) 100 16 (demoState [floorHit] default_data)"

definition movingState :: State where
  "movingState = dispatchEvent (demoScene [floorHit]) clickEvent hoverState"

definition midState :: State where
  "midState = tick (demoScene [floorHit]) 1116 1000 movingState"

section \<open>Properties\<close>

subsection \<open>The registry rebuild in closed form\<close>

lemma fold_markNavmesh:
  "fold markNavmesh objs st =
     st\<lparr> userData := markFlags objs (userData st),
         rayCastObjects := rayCastObjects st @ filter isMesh objs \<rparr>"
  by (induction objs arbitrary: st) (simp_all add: markNavmesh_def markFlags_def)

lemma markFlags_append: "markFlags (xs @ ys) f = markFlags ys (markFlags xs f)"
  by (simp add: markFlags_def)

lemma markFlags_other: "i \<notin> uuid ` set objs \<Longrightarrow> markFlags objs f i = f i"
  by (induction objs arbitrary: f) (auto simp: markFlags_def)

lemma markFlags_raycastExclude: "raycastExclude (markFlags objs f i) = raycastExclude (f i)"
  by (induction objs arbitrary: f) (auto simp: markFlags_def)

lemma fold_collision_entities:
  "fold (\<lambda>entity. fold markNavmesh (traverse entity)) ents st
     = st\<lparr> userData := markFlags (concat (map traverse ents)) (userData st),
            rayCastObjects := rayCastObjects st @ meshesOf ents \<rparr>"
proof (induction ents arbitrary: st)
  case Nil
  show ?case by (simp add: markFlags_def meshesOf_def)
next
  case (Cons e ents)
  have "fold (\<lambda>entity. fold markNavmesh (traverse entity)) (e # ents) st
          = fold (\<lambda>entity. fold markNavmesh (traverse entity)) ents
              (fold markNavmesh (traverse e) st)"
    by simp
  also have "\<dots> = (fold markNavmesh (traverse e) st)
        \<lparr> userData := markFlags (concat (map traverse ents))
                        (userData (fold markNavmesh (traverse e) st)),
          rayCastObjects := rayCastObjects (fold markNavmesh (traverse e) st) @ meshesOf ents \<rparr>"
    by (rule Cons.IH)
  also have "\<dots> = st\<lparr> userData := markFlags (concat (map traverse (e # ents))) (userData st),
            rayCastObjects := rayCastObjects st @ meshesOf (e # ents) \<rparr>"
    by (simp add: fold_markNavmesh meshesOf_def markFlags_append)
  finally show ?case .
qed

lemma fold_pushIgnored:
  "fold pushIgnored objs st = st\<lparr> rayCastObjects := rayCastObjects st @ filter isMesh objs \<rparr>"
  by (induction objs arbitrary: st) (simp_all add: pushIgnored_def)

lemma fold_ignore_entities:
  "fold (\<lambda>entity. fold pushIgnored (traverse entity)) ents st
     = st\<lparr> rayCastObjects := rayCastObjects st @ meshesOf ents \<rparr>"
  by (induction ents arbitrary: st) (simp_all add: meshesOf_def fold_pushIgnored)

lemma updateRaycastObjects_closed:
  "updateRaycastObjects sc st =
     st\<lparr> rayCastObjects := registry sc st,
         allSceneMeshes := Some (sceneMeshes sc st),
         lastCollisionCount :=
           (if collisionEntities (data st) \<noteq> []
            then length (querySelectorAll sc (collisionEntities (data st)))
            else lastCollisionCount st),
         userData :=
           (if collisionEntities (data st) \<noteq> []
            then markFlags (concat (map traverse (querySelectorAll sc (collisionEntities (data st)))))
                   (userData st)
            else (case collisionMesh st of
                    None \<Rightarrow> (userData st)(DefaultCollisionPlane :=
                                (userData st DefaultCollisionPlane)\<lparr> collision := True \<rparr>)
                  | Some m \<Rightarrow> userData st)),
         collisionMesh :=
           (if collisionEntities (data st) \<noteq> [] then collisionMesh st
            else Some (case collisionMesh st of None \<Rightarrow> defaultCollisionPlane | Some m \<Rightarrow> m)),
         console :=
           (if collisionEntities (data st) \<noteq> []
               \<and> meshesOf (querySelectorAll sc (collisionEntities (data st))) = []
               \<and> rayCastObjects st \<noteq> []
            then console st @ [lost_warning] else console st),
         lastRaycastCount :=
           (if collisionEntities (data st) \<noteq> []
            then length (meshesOf (querySelectorAll sc (collisionEntities (data st)))) else 1) \<rparr>"
  by (cases "collisionMesh st")
     (simp_all add: updateRaycastObjects_def registry_def Let_def fold_collision_entities
        fold_ignore_entities)

lemma rayCastObjects_update: "rayCastObjects (updateRaycastObjects sc st) = registry sc st"
  by (simp add: updateRaycastObjects_closed)

lemma data_update: "data (updateRaycastObjects sc st) = data st"
  by (simp add: updateRaycastObjects_closed)

lemma collisionMesh_update:
  "collisionMesh (updateRaycastObjects sc st) =
     (if collisionEntities (data st) \<noteq> [] then collisionMesh st
      else Some (case collisionMesh st of None \<Rightarrow> defaultCollisionPlane | Some m \<Rightarrow> m))"
  by (simp add: updateRaycastObjects_closed)

lemma allSceneMeshes_update:
  "allSceneMeshes (updateRaycastObjects sc st) = Some (sceneMeshes sc st)"
  by (simp add: updateRaycastObjects_closed)

lemma userData_update:
  "collisionEntities (data st) \<noteq> [] \<Longrightarrow>
     userData (updateRaycastObjects sc st) =
       markFlags (concat (map traverse (querySelectorAll sc (collisionEntities (data st)))))
         (userData st)"
  by (simp add: updateRaycastObjects_closed)

lemma update_keeps:
  "referenceNormal (updateRaycastObjects sc st) = referenceNormal st"
  "cursorEl (updateRaycastObjects sc st) = cursorEl st"
  "cursorRaycaster (updateRaycastObjects sc st) = cursorRaycaster st"
  by (simp_all add: updateRaycastObjects_closed)

subsection \<open>The resolver in closed form\<close>

lemma validateIntersect_result:
  "fst (validateIntersect h st) =
     (if landingAngle st h \<le> landingMaxAngle (data st) \<and> collision (userData st (uuid (hit_object h)))
      then Some \<lparr> point = hit_point h, normal = worldNormalOf h \<rparr> else None)"
  by (simp add: validateIntersect_def isValidNormalsAngle_def landingAngle_def worldNormalOf_def
        Let_def)

lemma resolver_result:
  "fst (getTeleportPositionFromCursor sc st) =
     (if rayCastObjects st = [] then None
      else (case cursorIntersections sc st of
              [] \<Rightarrow> None
            | h # further \<Rightarrow>
                if isNavmesh (userData st (uuid (hit_object h)))
                   \<and> landingAngle st h \<le> landingMaxAngle (data st)
                   \<and> collision (userData st (uuid (hit_object h)))
                then Some \<lparr> point = hit_point h, normal = worldNormalOf h \<rparr> else None))"
proof (cases "if cursorRaycaster st \<or> cursorEl st then elRaycaster (aCursor sc) else None")
  case None
  then show ?thesis
    by (simp add: getTeleportPositionFromCursor_def cursorIntersections_def)
next
  case (Some r)
  have v: "\<And>h. fst (validateIntersect h (st\<lparr> cursorRaycaster := True \<rparr>)) =
     (if landingAngle st h \<le> landingMaxAngle (data st) \<and> collision (userData st (uuid (hit_object h)))
      then Some \<lparr> point = hit_point h, normal = worldNormalOf h \<rparr> else None)"
    by (simp add: validateIntersect_result landingAngle_def)
  show ?thesis
    using Some
    by (simp add: getTeleportPositionFromCursor_def cursorIntersections_def Let_def v
          split: list.split)
qed

lemma ascending_head:
  assumes "ascending (h0 # rest)" and "h \<in> set (h0 # rest)"
  shows "distance h0 \<le> distance h"
  using assms by (auto simp: ascending_def)

subsection \<open>Facts about the example scenes\<close>

lemmas demo_objs =
  sceneRoot_def floorEl_def floorMesh_def boxEl_def boxMesh_def rampEl_def rampMesh_def

lemmas vector_math =
  getNormalMatrix_def applyNormalMatrix_def setFromMatrix4_def invert3_def transpose3_def
  applyMatrix3_def normalize_def divideScalar_def multiplyScalar_def length3_def Let_def
  angleTo_def lengthSq_def dot_def clamp_def RAD2DEG_def

lemma setupCursor_frame:
  "rayCastObjects (setupCursor sc st) = rayCastObjects st"
  "allSceneMeshes (setupCursor sc st) = allSceneMeshes st"
  "userData (setupCursor sc st) = userData st"
  "data (setupCursor sc st) = data st"
  "referenceNormal (setupCursor sc st) = referenceNormal st"
  by (simp_all add: setupCursor_def Let_def)

lemma setupCursor_cursor:
  "elRaycaster (aCursor sc) = Some r \<Longrightarrow> cursorRaycaster (setupCursor sc st)"
  by (simp add: setupCursor_def Let_def)

lemma traverse_sceneRoot:
  "traverse sceneRoot = [sceneRoot, floorEl, floorMesh, boxEl, boxMesh, rampEl, rampMesh]"
  by (simp add: demo_objs)

lemma demoFlags_raycastExclude: "raycastExclude (demoFlags i) = False"
  by (simp add: demoFlags_def navmesh_init_def noFlags_def demo_objs)

lemma demo_allSceneMeshes:
  "allSceneMeshes (demoState hits d) = Some [floorMesh, boxMesh, rampMesh]"
  by (simp add: demoState_def init_def setupCursor_frame updateRaycastObjects_closed sceneMeshes_def
       demoScene_def traverse_sceneRoot demoFlags_raycastExclude)
     (simp add: demo_objs)

lemma demo_cursorRaycaster: "cursorRaycaster (demoState hits d)"
  unfolding demoState_def init_def
  by (rule setupCursor_cursor) (simp add: demoScene_def)

lemma demo_cursorIntersections:
  "cursorIntersections (demoScene hits) (demoState hits' d)
     = filter (\<lambda>h. hit_object h \<in> {floorMesh, boxMesh, rampMesh}) hits"
  by (simp add: cursorIntersections_def demo_cursorRaycaster demo_allSceneMeshes rayThrough_def
        demoScene_def)

lemma demo_rayCastObjects:
  "rayCastObjects (demoState hits default_data) = [floorMesh, rampMesh]"
  "rayCastObjects (demoState hits wallData) = [floorMesh, rampMesh, boxMesh]"
  by (simp_all add: demoState_def init_def setupCursor_frame updateRaycastObjects_closed
        registry_def default_data_def wallData_def demoScene_def meshesOf_def demo_objs)

lemma demo_userData:
  "collisionEntities d = ''[navmesh]'' \<Longrightarrow>
     userData (demoState hits d) = markFlags [floorEl, floorMesh, rampEl, rampMesh] demoFlags"
  by (simp add: demoState_def init_def setupCursor_frame updateRaycastObjects_closed
        demoScene_def demo_objs)

lemma demo_flags:
  assumes "collisionEntities d = ''[navmesh]''"
  shows "isNavmesh (userData (demoState hits d) (uuid floorMesh))"
    and "collision (userData (demoState hits d) (uuid floorMesh))"
    and "isNavmesh (userData (demoState hits d) (uuid rampMesh))"
    and "collision (userData (demoState hits d) (uuid rampMesh))"
    and "\<not> isNavmesh (userData (demoState hits d) (uuid boxMesh))"
    and "\<not> collision (userData (demoState hits d) (uuid boxMesh))"
  by (simp_all add: demo_userData [OF assms] markFlags_def demoFlags_def navmesh_init_def
        noFlags_def demo_objs)

lemma demo_data:
  "referenceNormal (demoState hits d) = landingNormal d"
  "data (demoState hits d) = d"
  by (simp_all add: demoState_def init_def setupCursor_frame updateRaycastObjects_closed)

lemma worldNormalOf_floorHit: "worldNormalOf floorHit = Vector3 0 1 0"
  by (simp add: worldNormalOf_def floorHit_def floorMesh_def floorMatrix_def vector_math)

lemma landingAngle_floor:
  "referenceNormal st = Vector3 0 1 0 \<Longrightarrow> landingAngle st floorHit = 0"
  by (simp add: landingAngle_def floorHit_def floorMesh_def floorMatrix_def vector_math)

lemma landingAngle_ramp:
  "referenceNormal st = Vector3 0 1 0 \<Longrightarrow> landingAngle st rampHit = 90"
  by (simp add: landingAngle_def rampHit_def rampMesh_def identity4_def vector_math)

lemma collisionEntities_default:
  "collisionEntities default_data = ''[navmesh]''" "collisionEntities wallData = ''[navmesh]''"
  "landingNormal default_data = Vector3 0 1 0" "landingNormal wallData = Vector3 0 1 0"
  "landingMaxAngle default_data = 45" "landingMaxAngle wallData = 45"
  "ignoreEntities wallData = ''.wall''" "ignoreEntities default_data = []"
  by (simp_all add: default_data_def wallData_def)

subsection \<open>The registry\<close>

text \<open>
  C9.  Rebuilding the registry twice in a row with the same scene (the same query results
  and the same object trees) leaves the same list in \<^verbatim>\<open>rayCastObjects\<close> as rebuilding
  it once: the same members, even in the same order.
\<close>

theorem rebuild_idempotent:
  "rayCastObjects (updateRaycastObjects sc (updateRaycastObjects sc st))
     = rayCastObjects (updateRaycastObjects sc st)
   \<and> set (rayCastObjects (updateRaycastObjects sc (updateRaycastObjects sc st)))
     = set (rayCastObjects (updateRaycastObjects sc st))"
  by (simp add: rayCastObjects_update registry_def data_update collisionMesh_update
        split: option.split)

theorem rebuild_idempotent_witness:
  "rayCastObjects (updateRaycastObjects (demoScene [])
       (updateRaycastObjects (demoScene []) (demoState [] wallData)))
     = rayCastObjects (updateRaycastObjects (demoScene []) (demoState [] wallData))
   \<and> rayCastObjects (updateRaycastObjects (demoScene []) (demoState [] wallData))
     = [floorMesh, rampMesh, boxMesh]"
  using rebuild_idempotent [of "demoScene []" "demoState [] wallData"]
  by (simp add: rayCastObjects_update registry_def demo_data collisionEntities_default
        demoScene_def meshesOf_def demo_objs)

subsection \<open>The cursor hit resolver\<close>

text \<open>
  C1.  Occlusion blocks the teleport.  The intersections of the cursor's ray with the
  visible, non-excluded scene meshes come back in ascending order of distance.  If every
  intersection that is at least as near as some intersection \<open>h\<close> lies on an object that
  is not flagged as navmesh (in particular, if the single nearest intersection does), the
  resolver returns no landing, whatever lies further along the ray.
\<close>

theorem occlusion_blocks_teleport:
  assumes "ascending (cursorIntersections sc st)"
    and "h \<in> set (cursorIntersections sc st)"
    and "\<forall>h' \<in> set (cursorIntersections sc st).
           distance h' \<le> distance h \<longrightarrow> \<not> isNavmesh (userData st (uuid (hit_object h')))"
  shows "fst (getTeleportPositionFromCursor sc st) = None"
proof (cases "cursorIntersections sc st")
  case Nil
  then show ?thesis by (simp add: resolver_result)
next
  case (Cons h0 rest)
  have "distance h0 \<le> distance h"
    using assms(1,2) Cons ascending_head by simp
  moreover have "h0 \<in> set (cursorIntersections sc st)"
    using Cons by simp
  ultimately have "\<not> isNavmesh (userData st (uuid (hit_object h0)))"
    using assms(3) by blast
  then show ?thesis
    using Cons by (simp add: resolver_result)
qed

text \<open>
  The box stands between the camera and the floor: the ray meets the box at distance 1 and
  the floor, a valid navmesh, at distance 3.
\<close>

theorem occlusion_blocks_teleport_witness:
  "cursorIntersections (demoScene [boxHit, floorHit]) (demoState [boxHit, floorHit] default_data)
     = [boxHit, floorHit]
   \<and> isNavmesh (userData (demoState [boxHit, floorHit] default_data) (uuid floorMesh))
   \<and> fst (getTeleportPositionFromCursor (demoScene [boxHit, floorHit])
            (demoState [boxHit, floorHit] default_data)) = None"
proof -
  let ?sc = "demoScene [boxHit, floorHit]"
  let ?st = "demoState [boxHit, floorHit] default_data"
  have hits: "cursorIntersections ?sc ?st = [boxHit, floorHit]"
    by (simp add: demo_cursorIntersections boxHit_def floorHit_def)
  have asc: "ascending (cursorIntersections ?sc ?st)"
    unfolding hits by (simp add: ascending_def boxHit_def floorHit_def)
  have mem: "boxHit \<in> set (cursorIntersections ?sc ?st)"
    by (simp add: hits)
  have box: "\<not> isNavmesh (userData ?st (uuid boxMesh))"
    by (rule demo_flags) (simp add: collisionEntities_default)
  have near: "\<forall>h' \<in> set (cursorIntersections ?sc ?st).
      distance h' \<le> distance boxHit \<longrightarrow> \<not> isNavmesh (userData ?st (uuid (hit_object h')))"
    unfolding hits using box by (simp add: boxHit_def floorHit_def)
  have floor: "isNavmesh (userData ?st (uuid floorMesh))"
    by (rule demo_flags) (simp add: collisionEntities_default)
  show ?thesis
    using occlusion_blocks_teleport [OF asc mem near] hits floor by simp
qed

text \<open>
  C3, as amended.  When the registry list is not empty and the nearest intersection of the
  ray query lies on an object flagged navmesh and collidable whose surface angle is at most
  \<^verbatim>\<open>landingMaxAngle\<close>, the resolver returns a landing: its point is the intersection
  point, its normal the face normal transformed by the normal matrix of the object and
  normalised.
\<close>

theorem valid_landing_returned:
  assumes "cursorIntersections sc st = firstHit # further"
    and "rayCastObjects st \<noteq> []"
    and "isNavmesh (userData st (uuid (hit_object firstHit)))"
    and "collision (userData st (uuid (hit_object firstHit)))"
    and "landingAngle st firstHit \<le> landingMaxAngle (data st)"
  shows "fst (getTeleportPositionFromCursor sc st)
           = Some \<lparr> point = hit_point firstHit, normal = worldNormalOf firstHit \<rparr>"
  using assms by (simp add: resolver_result)

theorem valid_landing_returned_witness:
  "cursorIntersections (demoScene [floorHit]) (demoState [floorHit] default_data) = [floorHit]
   \<and> rayCastObjects (demoState [floorHit] default_data) = [floorMesh, rampMesh]
   \<and> landingAngle (demoState [floorHit] default_data) floorHit = 0
   \<and> fst (getTeleportPositionFromCursor (demoScene [floorHit]) (demoState [floorHit] default_data))
       = Some \<lparr> point = Vector3 0 0 0, normal = Vector3 0 1 0 \<rparr>"
proof -
  let ?sc = "demoScene [floorHit]"
  let ?st = "demoState [floorHit] default_data"
  have hits: "cursorIntersections ?sc ?st = floorHit # []"
    by (simp add: demo_cursorIntersections floorHit_def)
  have reg: "rayCastObjects ?st \<noteq> []"
    by (simp add: demo_rayCastObjects)
  have nav: "isNavmesh (userData ?st (uuid (hit_object floorHit)))"
    using demo_flags(1) [of default_data "[floorHit]"]
    by (simp add: collisionEntities_default floorHit_def)
  have col: "collision (userData ?st (uuid (hit_object floorHit)))"
    using demo_flags(2) [of default_data "[floorHit]"]
    by (simp add: collisionEntities_default floorHit_def)
  have angle: "landingAngle ?st floorHit = 0"
    by (rule landingAngle_floor) (simp add: demo_data collisionEntities_default)
  have ok: "landingAngle ?st floorHit \<le> landingMaxAngle (data ?st)"
    by (simp add: angle demo_data collisionEntities_default)
  have "hit_point floorHit = Vector3 0 0 0"
    by (simp add: floorHit_def)
  then show ?thesis
    using valid_landing_returned [OF hits reg nav col ok] hits angle
    by (simp add: demo_rayCastObjects worldNormalOf_floorHit)
qed

subsection \<open>Ignored entities\<close>

text \<open>
  C8, as amended.  Entities matched by \<^verbatim>\<open>ignoreEntities\<close> are not passthrough.
  Every rebuild run with an ignore selector appends each mesh of the matched entities to
  the registry list.  The rebuild leaves the flags of such a mesh as they were, unless the
  collision selector reaches it too.  When, after the rebuild, such a mesh is not flagged
  navmesh and a ray query meets it first, the resolver returns no landing, whatever lies
  behind it.
\<close>

theorem ignored_entities_block:
  assumes "ignoreEntities (data st) \<noteq> []"
    and "m \<in> set (meshesOf (querySelectorAll sc (ignoreEntities (data st))))"
  shows "m \<in> set (rayCastObjects (updateRaycastObjects sc st))
       \<and> (collisionEntities (data st) \<noteq> []
            \<and> uuid m \<notin> uuid ` set (concat (map traverse
                         (querySelectorAll sc (collisionEntities (data st)))))
          \<longrightarrow> userData (updateRaycastObjects sc st) (uuid m) = userData st (uuid m))
       \<and> (collisionEntities (data st) = [] \<and> uuid m \<noteq> DefaultCollisionPlane
          \<longrightarrow> userData (updateRaycastObjects sc st) (uuid m) = userData st (uuid m))
       \<and> (cursorIntersections sc' (updateRaycastObjects sc st) = h # further
            \<and> hit_object h = m
            \<and> \<not> isNavmesh (userData (updateRaycastObjects sc st) (uuid m))
          \<longrightarrow> fst (getTeleportPositionFromCursor sc' (updateRaycastObjects sc st)) = None)"
proof -
  have member: "m \<in> set (rayCastObjects (updateRaycastObjects sc st))"
    using assms by (simp add: rayCastObjects_update registry_def)
  have reached: "collisionEntities (data st) \<noteq> []
            \<and> uuid m \<notin> uuid ` set (concat (map traverse
                         (querySelectorAll sc (collisionEntities (data st)))))
          \<longrightarrow> userData (updateRaycastObjects sc st) (uuid m) = userData st (uuid m)"
    by (simp add: userData_update markFlags_other)
  have plane: "collisionEntities (data st) = [] \<and> uuid m \<noteq> DefaultCollisionPlane
          \<longrightarrow> userData (updateRaycastObjects sc st) (uuid m) = userData st (uuid m)"
    by (simp add: updateRaycastObjects_closed split: option.split)
  have blocks: "cursorIntersections sc' (updateRaycastObjects sc st) = h # further
            \<and> hit_object h = m
            \<and> \<not> isNavmesh (userData (updateRaycastObjects sc st) (uuid m))
          \<longrightarrow> fst (getTeleportPositionFromCursor sc' (updateRaycastObjects sc st)) = None"
    by (simp add: resolver_result)
  show ?thesis
    using member reached plane blocks by blast
qed

lemma demo_rebuilt_meshes:
  "collisionEntities d = ''[navmesh]'' \<Longrightarrow>
     allSceneMeshes (updateRaycastObjects (demoScene hits) (demoState hits' d))
       = Some [floorMesh, boxMesh, rampMesh]"
  by (simp add: allSceneMeshes_update sceneMeshes_def demoScene_def traverse_sceneRoot
        demo_userData markFlags_raycastExclude demoFlags_raycastExclude)
     (simp add: demo_objs)

lemma demoScene_aCursor: "elRaycaster (aCursor (demoScene hits)) = Some (rayThrough hits)"
  by (simp add: demoScene_def)

lemma demo_rebuilt_intersections:
  "collisionEntities d = ''[navmesh]'' \<Longrightarrow>
     cursorIntersections (demoScene hits) (updateRaycastObjects (demoScene hits'') (demoState hits' d))
       = filter (\<lambda>h. hit_object h \<in> {floorMesh, boxMesh, rampMesh}) hits"
  by (simp add: cursorIntersections_def update_keeps demo_cursorRaycaster demo_rebuilt_meshes
        rayThrough_def demoScene_aCursor)

text \<open>
  The box matches the ignore selector and stands between the camera and the floor.
\<close>

theorem ignored_entities_block_witness:
  "boxMesh \<in> set (rayCastObjects
       (updateRaycastObjects (demoScene []) (demoState [] wallData)))
   \<and> userData (updateRaycastObjects (demoScene []) (demoState [] wallData)) (uuid boxMesh)
       = userData (demoState [] wallData) (uuid boxMesh)
   \<and> \<not> isNavmesh (userData (updateRaycastObjects (demoScene []) (demoState [] wallData))
                      (uuid boxMesh))
   \<and> cursorIntersections (demoScene [boxHit, floorHit])
        (updateRaycastObjects (demoScene []) (demoState [] wallData)) = [boxHit, floorHit]
   \<and> fst (getTeleportPositionFromCursor (demoScene [boxHit, floorHit])
        (updateRaycastObjects (demoScene []) (demoState [] wallData))) = None"
proof -
  let ?sc = "demoScene []"
  let ?st = "demoState [] wallData"
  let ?r = "updateRaycastObjects ?sc ?st"
  have a1: "ignoreEntities (data ?st) \<noteq> []"
    by (simp add: demo_data collisionEntities_default)
  have a2: "boxMesh \<in> set (meshesOf (querySelectorAll ?sc (ignoreEntities (data ?st))))"
    by (simp add: demo_data collisionEntities_default demoScene_def meshesOf_def demo_objs)
  have a3: "collisionEntities (data ?st) \<noteq> []"
    by (simp add: demo_data collisionEntities_default)
  have a4: "uuid boxMesh \<notin> uuid ` set (concat (map traverse
              (querySelectorAll ?sc (collisionEntities (data ?st)))))"
    by (simp add: demo_data collisionEntities_default demoScene_def demo_objs)
  have a5: "\<not> isNavmesh (userData ?st (uuid boxMesh))"
    by (rule demo_flags) (simp add: collisionEntities_default)
  have a6: "cursorIntersections (demoScene [boxHit, floorHit]) ?r = boxHit # [floorHit]"
    by (simp add: demo_rebuilt_intersections collisionEntities_default boxHit_def floorHit_def)
  have a7: "hit_object boxHit = boxMesh"
    by (simp add: boxHit_def)
  note inst = ignored_entities_block
               [OF a1 a2, of "demoScene [boxHit, floorHit]" boxHit "[floorHit]"]
  have member: "boxMesh \<in> set (rayCastObjects ?r)"
    using inst by blast
  have kept: "userData ?r (uuid boxMesh) = userData ?st (uuid boxMesh)"
    using inst a3 a4 by blast
  have unflagged: "\<not> isNavmesh (userData ?r (uuid boxMesh))"
    using kept a5 by simp
  have blocked: "fst (getTeleportPositionFromCursor (demoScene [boxHit, floorHit]) ?r) = None"
    using inst a6 a7 unflagged by blast
  show ?thesis
    using member kept unflagged a6 blocked by simp
qed

text \<open>
  C8 as stated fails.  With the box matched by the ignore selector, the box mesh is a
  member of the registry list after the rebuild of the initialisation, and the ray that
  meets the box before the floor finds no landing, although the floor behind it is a valid
  navmesh on which the same resolver lands when the box is not on the ray.
\<close>

theorem ignored_entities_counterexample:
  "boxMesh \<in> set (meshesOf (querySelectorAll (demoScene [boxHit, floorHit])
                              (ignoreEntities (data (demoState [boxHit, floorHit] wallData)))))
   \<and> boxMesh \<in> set (rayCastObjects (demoState [boxHit, floorHit] wallData))
   \<and> cursorIntersections (demoScene [boxHit, floorHit]) (demoState [boxHit, floorHit] wallData)
        = [boxHit, floorHit]
   \<and> fst (getTeleportPositionFromCursor (demoScene [boxHit, floorHit])
            (demoState [boxHit, floorHit] wallData)) = None
   \<and> fst (getTeleportPositionFromCursor (demoScene [floorHit])
            (demoState [boxHit, floorHit] wallData))
        = Some \<lparr> point = Vector3 0 0 0, normal = Vector3 0 1 0 \<rparr>"
proof -
  let ?st = "demoState [boxHit, floorHit] wallData"
  have ign: "boxMesh \<in> set (meshesOf (querySelectorAll (demoScene [boxHit, floorHit])
                              (ignoreEntities (data ?st))))"
    by (simp add: demo_data collisionEntities_default demoScene_def meshesOf_def demo_objs)
  have reg: "rayCastObjects ?st = [floorMesh, rampMesh, boxMesh]"
    by (rule demo_rayCastObjects)
  have hits: "cursorIntersections (demoScene [boxHit, floorHit]) ?st = [boxHit, floorHit]"
    by (simp add: demo_cursorIntersections boxHit_def floorHit_def)
  have hits': "cursorIntersections (demoScene [floorHit]) ?st = [floorHit]"
    by (simp add: demo_cursorIntersections floorHit_def)
  have box: "\<not> isNavmesh (userData ?st (uuid (hit_object boxHit)))"
    using demo_flags(5) [of wallData "[boxHit, floorHit]"]
    by (simp add: collisionEntities_default boxHit_def)
  have nav: "isNavmesh (userData ?st (uuid (hit_object floorHit)))"
    using demo_flags(1) [of wallData "[boxHit, floorHit]"]
    by (simp add: collisionEntities_default floorHit_def)
  have col: "collision (userData ?st (uuid (hit_object floorHit)))"
    using demo_flags(2) [of wallData "[boxHit, floorHit]"]
    by (simp add: collisionEntities_default floorHit_def)
  have angle: "landingAngle ?st floorHit = 0"
    by (rule landingAngle_floor) (simp add: demo_data collisionEntities_default)
  have blocked: "fst (getTeleportPositionFromCursor (demoScene [boxHit, floorHit]) ?st) = None"
    using box by (simp add: resolver_result hits reg)
  have "hit_point floorHit = Vector3 0 0 0"
    by (simp add: floorHit_def)
  then have free: "fst (getTeleportPositionFromCursor (demoScene [floorHit]) ?st)
        = Some \<lparr> point = Vector3 0 0 0, normal = Vector3 0 1 0 \<rparr>"
    using nav col
    by (simp add: resolver_result hits' reg angle demo_data collisionEntities_default
          worldNormalOf_floorHit)
  show ?thesis
    using ign reg hits blocked free by simp
qed

subsection \<open>What each operation leaves alone\<close>

lemma update_frame:
  "listeners (updateRaycastObjects sc st) = listeners st"
  "transitioning (updateRaycastObjects sc st) = transitioning st"
  "transitionProgress (updateRaycastObjects sc st) = transitionProgress st"
  "transitionCamPosStart (updateRaycastObjects sc st) = transitionCamPosStart st"
  "transitionCamPosEnd (updateRaycastObjects sc st) = transitionCamPosEnd st"
  "transitionRotStart (updateRaycastObjects sc st) = transitionRotStart st"
  "transitionRotEnd (updateRaycastObjects sc st) = transitionRotEnd st"
  "camRig (updateRaycastObjects sc st) = camRig st"
  "emitted (updateRaycastObjects sc st) = emitted st"
  "teleportIndicator (updateRaycastObjects sc st) = teleportIndicator st"
  "isVR (updateRaycastObjects sc st) = isVR st"
  "tunnelElement (updateRaycastObjects sc st) = tunnelElement st"
  by (simp_all add: updateRaycastObjects_closed)

lemma refresh_frame:
  "listeners (refreshRegistry sc time st) = listeners st"
  "data (refreshRegistry sc time st) = data st"
  "transitioning (refreshRegistry sc time st) = transitioning st"
  "transitionProgress (refreshRegistry sc time st) = transitionProgress st"
  "transitionCamPosStart (refreshRegistry sc time st) = transitionCamPosStart st"
  "transitionCamPosEnd (refreshRegistry sc time st) = transitionCamPosEnd st"
  "transitionRotStart (refreshRegistry sc time st) = transitionRotStart st"
  "transitionRotEnd (refreshRegistry sc time st) = transitionRotEnd st"
  "camRig (refreshRegistry sc time st) = camRig st"
  "emitted (refreshRegistry sc time st) = emitted st"
  "teleportIndicator (refreshRegistry sc time st) = teleportIndicator st"
  "isVR (refreshRegistry sc time st) = isVR st"
  "tunnelElement (refreshRegistry sc time st) = tunnelElement st"
  by (simp_all add: refreshRegistry_def update_frame data_update)

lemma validate_frame:
  "listeners (snd (validateIntersect h st)) = listeners st"
  "data (snd (validateIntersect h st)) = data st"
  "transitioning (snd (validateIntersect h st)) = transitioning st"
  "transitionProgress (snd (validateIntersect h st)) = transitionProgress st"
  "transitionCamPosStart (snd (validateIntersect h st)) = transitionCamPosStart st"
  "transitionCamPosEnd (snd (validateIntersect h st)) = transitionCamPosEnd st"
  "transitionRotStart (snd (validateIntersect h st)) = transitionRotStart st"
  "transitionRotEnd (snd (validateIntersect h st)) = transitionRotEnd st"
  "camRig (snd (validateIntersect h st)) = camRig st"
  "emitted (snd (validateIntersect h st)) = emitted st"
  "teleportIndicator (snd (validateIntersect h st)) = teleportIndicator st"
  "isVR (snd (validateIntersect h st)) = isVR st"
  "tunnelElement (snd (validateIntersect h st)) = tunnelElement st"
  "upVector (snd (validateIntersect h st)) = upVector st"
  by (simp_all add: validateIntersect_def isValidNormalsAngle_def Let_def)

lemma resolver_frame:
  "listeners (snd (getTeleportPositionFromCursor sc st)) = listeners st"
  "data (snd (getTeleportPositionFromCursor sc st)) = data st"
  "transitioning (snd (getTeleportPositionFromCursor sc st)) = transitioning st"
  "transitionProgress (snd (getTeleportPositionFromCursor sc st)) = transitionProgress st"
  "transitionCamPosStart (snd (getTeleportPositionFromCursor sc st)) = transitionCamPosStart st"
  "transitionCamPosEnd (snd (getTeleportPositionFromCursor sc st)) = transitionCamPosEnd st"
  "transitionRotStart (snd (getTeleportPositionFromCursor sc st)) = transitionRotStart st"
  "transitionRotEnd (snd (getTeleportPositionFromCursor sc st)) = transitionRotEnd st"
  "camRig (snd (getTeleportPositionFromCursor sc st)) = camRig st"
  "emitted (snd (getTeleportPositionFromCursor sc st)) = emitted st"
  "teleportIndicator (snd (getTeleportPositionFromCursor sc st)) = teleportIndicator st"
  "isVR (snd (getTeleportPositionFromCursor sc st)) = isVR st"
  "tunnelElement (snd (getTeleportPositionFromCursor sc st)) = tunnelElement st"
  "upVector (snd (getTeleportPositionFromCursor sc st)) = upVector st"
  by (simp_all add: getTeleportPositionFromCursor_def Let_def validate_frame
        split: option.split list.split)

lemma legacy_resolver_frame:
  "listeners (snd (getTeleportPosition sc x y st)) = listeners st"
  "data (snd (getTeleportPosition sc x y st)) = data st"
  "transitioning (snd (getTeleportPosition sc x y st)) = transitioning st"
  "transitionRotEnd (snd (getTeleportPosition sc x y st)) = transitionRotEnd st"
  "camRig (snd (getTeleportPosition sc x y st)) = camRig st"
  "emitted (snd (getTeleportPosition sc x y st)) = emitted st"
  by (simp_all add: getTeleportPosition_def Let_def validate_frame split: list.split)

lemma updateIndicator_frame:
  "listeners (updateIndicator sc time st) = listeners st"
  "data (updateIndicator sc time st) = data st"
  "transitioning (updateIndicator sc time st) = transitioning st"
  "transitionProgress (updateIndicator sc time st) = transitionProgress st"
  "transitionCamPosStart (updateIndicator sc time st) = transitionCamPosStart st"
  "transitionCamPosEnd (updateIndicator sc time st) = transitionCamPosEnd st"
  "transitionRotStart (updateIndicator sc time st) = transitionRotStart st"
  "transitionRotEnd (updateIndicator sc time st) = transitionRotEnd st"
  "camRig (updateIndicator sc time st) = camRig st"
  "emitted (updateIndicator sc time st) = emitted st"
  "isVR (updateIndicator sc time st) = isVR st"
  "tunnelElement (updateIndicator sc time st) = tunnelElement st"
  by (simp_all add: updateIndicator_def Let_def split_beta resolver_frame split: option.split)

lemma tunnel_frame:
  "listeners (triggerTunnelAnimation st) = listeners st"
  "data (triggerTunnelAnimation st) = data st"
  "transitioning (triggerTunnelAnimation st) = transitioning st"
  "transitionProgress (triggerTunnelAnimation st) = transitionProgress st"
  "transitionCamPosStart (triggerTunnelAnimation st) = transitionCamPosStart st"
  "transitionCamPosEnd (triggerTunnelAnimation st) = transitionCamPosEnd st"
  "transitionRotStart (triggerTunnelAnimation st) = transitionRotStart st"
  "transitionRotEnd (triggerTunnelAnimation st) = transitionRotEnd st"
  "camRig (triggerTunnelAnimation st) = camRig st"
  "emitted (triggerTunnelAnimation st) = emitted st"
  "teleportIndicator (triggerTunnelAnimation st) = teleportIndicator st"
  "listeners (triggerTunnelUpAnimation st) = listeners st"
  "data (triggerTunnelUpAnimation st) = data st"
  "transitioning (triggerTunnelUpAnimation st) = transitioning st"
  "transitionProgress (triggerTunnelUpAnimation st) = transitionProgress st"
  "transitionCamPosEnd (triggerTunnelUpAnimation st) = transitionCamPosEnd st"
  "transitionRotEnd (triggerTunnelUpAnimation st) = transitionRotEnd st"
  "camRig (triggerTunnelUpAnimation st) = camRig st"
  "emitted (triggerTunnelUpAnimation st) = emitted st"
  "teleportIndicator (triggerTunnelUpAnimation st) = teleportIndicator st"
  by (simp_all add: triggerTunnelAnimation_def triggerTunnelUpAnimation_def split: option.split)

subsection \<open>The animation step\<close>

lemma advance_frame:
  "listeners (advanceTransition sc deltaTime st) = listeners st"
  "data (advanceTransition sc deltaTime st) = data st"
  "teleportIndicator (advanceTransition sc deltaTime st) = teleportIndicator st"
  "transitionCamPosEnd (advanceTransition sc deltaTime st) = transitionCamPosEnd st"
  "transitionRotEnd (advanceTransition sc deltaTime st) = transitionRotEnd st"
  "transitionProgress (advanceTransition sc deltaTime st)
     = transitionProgress st + deltaTime * transitionSpeed (data st)"
  by (simp_all add: advanceTransition_def Let_def tunnel_frame)

lemma advance_running:
  assumes "transitionProgress st + deltaTime * transitionSpeed (data st) < 1"
  shows "transitioning (advanceTransition sc deltaTime st) = transitioning st"
    and "emitted (advanceTransition sc deltaTime st) = emitted st"
    and "position (camRig (advanceTransition sc deltaTime st))
           = lerpVectors (transitionCamPosStart st) (transitionCamPosEnd st)
               (easeInOutQuad (transitionProgress st + deltaTime * transitionSpeed (data st)))"
    and "quaternion (camRig (advanceTransition sc deltaTime st))
           = (if alignToSurface (data st)
              then slerpQuaternions sc (transitionRotStart st) (transitionRotEnd st)
                     (min (easeInOutQuad (transitionProgress st
                             + deltaTime * transitionSpeed (data st)) * rotationSmoothing (data st)) 1)
              else quaternion (camRig st))"
  using assms by (simp_all add: advanceTransition_def Let_def)

lemma advance_finished:
  assumes "1 \<le> transitionProgress st + deltaTime * transitionSpeed (data st)"
  shows "\<not> transitioning (advanceTransition sc deltaTime st)"
    and "emitted (advanceTransition sc deltaTime st) = emitted st @ [''navigation-end'']"
    and "position (camRig (advanceTransition sc deltaTime st)) = transitionCamPosEnd st"
    and "quaternion (camRig (advanceTransition sc deltaTime st))
           = (if alignToSurface (data st) then transitionRotEnd st else quaternion (camRig st))"
  using assms by (simp_all add: advanceTransition_def Let_def tunnel_frame)

lemma tick_transitioning:
  "transitioning st \<Longrightarrow>
     tick sc time deltaTime st = advanceTransition sc deltaTime (refreshRegistry sc time st)"
  by (simp add: tick_def Let_def refresh_frame)

lemma tick_idle:
  "\<not> transitioning st \<Longrightarrow>
     tick sc time deltaTime st = updateIndicator sc time (refreshRegistry sc time st)"
  by (simp add: tick_def Let_def refresh_frame updateIndicator_frame)

lemma tick_frame:
  "listeners (tick sc time deltaTime st) = listeners st"
  "data (tick sc time deltaTime st) = data st"
  "transitionCamPosEnd (tick sc time deltaTime st) = transitionCamPosEnd st"
  "transitionRotEnd (tick sc time deltaTime st) = transitionRotEnd st"
  by (cases "transitioning st";
      simp add: tick_transitioning tick_idle advance_frame refresh_frame updateIndicator_frame)+

lemma tick_idle_frame:
  assumes "\<not> transitioning st"
  shows "\<not> transitioning (tick sc time deltaTime st)"
    and "emitted (tick sc time deltaTime st) = emitted st"
    and "camRig (tick sc time deltaTime st) = camRig st"
    and "transitionProgress (tick sc time deltaTime st) = transitionProgress st"
  using assms by (simp_all add: tick_idle updateIndicator_frame refresh_frame)

lemma frames_idle:
  "\<not> transitioning st \<Longrightarrow>
     \<not> transitioning (frames fs st) \<and> emitted (frames fs st) = emitted st
     \<and> camRig (frames fs st) = camRig st"
proof (induction fs arbitrary: st)
  case Nil
  then show ?case by (simp add: frames_def)
next
  case (Cons f fs)
  obtain sc time deltaTime where f: "f = (sc, time, deltaTime)"
    by (cases f) auto
  have step: "frames (f # fs) st = frames fs (tick sc time deltaTime st)"
    by (simp add: frames_def f)
  have idle: "\<not> transitioning (tick sc time deltaTime st)"
    using Cons.prems by (rule tick_idle_frame)
  show ?case
    using Cons.IH [OF idle] Cons.prems by (simp add: step tick_idle_frame)
qed

subsection \<open>Starting a transition\<close>

lemma transition_fields:
  "transitionProgress (transition positionData tq st) = 0"
  "transitioning (transition positionData tq st)"
  "transitionCamPosStart (transition positionData tq st) = position (camRig st)"
  "transitionRotStart (transition positionData tq st) = quaternion (camRig st)"
  "transitionCamPosEnd (transition positionData tq st)
     = (case positionData of WithNormal l \<Rightarrow> point l | BarePosition p \<Rightarrow> p)"
  "transitionRotEnd (transition positionData tq st)
     = (case tq of
          Some q \<Rightarrow> q
        | None \<Rightarrow> (case positionData of
                     WithNormal l \<Rightarrow>
                       if alignToSurface (data st) then setFromUnitVectors (upVector st) (normal l)
                       else quaternion (camRig st)
                   | BarePosition p \<Rightarrow> quaternion (camRig st)))"
  "camRig (transition positionData tq st) = camRig st"
  "teleportIndicator (transition positionData tq st) = teleportIndicator st"
  "emitted (transition positionData tq st) = emitted st @ [''navigation-start'']"
  "listeners (transition positionData tq st) = listeners st"
  "data (transition positionData tq st) = data st"
  by (cases positionData; cases tq;
      simp add: transition_def Let_def tunnel_frame)+

lemma confirmLanding_fields:
  "transitioning (confirmLanding l st)"
  "transitionProgress (confirmLanding l st) = 0"
  "transitionCamPosEnd (confirmLanding l st) = point l"
  "transitionCamPosStart (confirmLanding l st) = position (camRig st)"
  "transitionRotEnd (confirmLanding l st)
     = (if alignToSurface (data st) then setFromUnitVectors (upVector st) (normal l)
        else quaternion (camRig st))"
  "camRig (confirmLanding l st) = camRig st"
  "emitted (confirmLanding l st) = emitted st @ [''navigation-start'']"
  "listeners (confirmLanding l st) = listeners st"
  "data (confirmLanding l st) = data st"
  "visible (teleportIndicator (confirmLanding l st)) = visible (teleportIndicator st)"
  by (simp_all add: confirmLanding_def Let_def transition_fields)

subsection \<open>Listeners and handlers\<close>

lemma setupCursor_keeps:
  "transitioning (setupCursor sc st) = transitioning st"
  "camRig (setupCursor sc st) = camRig st"
  "transitionRotEnd (setupCursor sc st) = transitionRotEnd st"
  "emitted (setupCursor sc st) = emitted st"
  "teleportIndicator (setupCursor sc st) = teleportIndicator st"
  by (simp_all add: setupCursor_def Let_def)

lemma setupCursor_listeners:
  "set (listeners (setupCursor sc st))
     \<subseteq> insert (CursorElement, ''click'', CursorClickHandler) (set (listeners st))"
  by (auto simp: setupCursor_def Let_def)

lemma registered_members:
  "(SceneEl, ''enter-vr'', OnEnterVR) \<in> registered"
  "(SceneEl, ''exit-vr'', OnExitVR) \<in> registered"
  "(Document, ''visibilitychange'', OnVisibilityChange) \<in> registered"
  "(CursorElement, ''click'', CursorClickHandler) \<in> registered"
  "(Window, ''keydown'', HideCursor) \<in> registered"
  by (simp_all add: registered_def)

lemma registered_handler:
  assumes "(t, n, h) \<in> registered"
  shows "h \<noteq> MouseDown" and "h \<noteq> MouseMove" and "h \<noteq> MouseUp"
    and "h = CursorClickHandler \<Longrightarrow> t = CursorElement \<and> n = ''click''"
  using assms unfolding registered_def by blast+

lemma setupCursor_registered:
  assumes "set (listeners st) \<subseteq> registered"
  shows "set (listeners (setupCursor sc st)) \<subseteq> registered"
proof -
  have "insert (CursorElement, ''click'', CursorClickHandler) (set (listeners st)) \<subseteq> registered"
    using assms registered_members(4) by blast
  then show ?thesis
    using setupCursor_listeners [of sc st] by blast
qed

lemma tunnelInit_keeps:
  "listeners (initializeTunnelForVR sc st) = listeners st"
  "data (initializeTunnelForVR sc st) = data st"
  "transitioning (initializeTunnelForVR sc st) = transitioning st"
  "camRig (initializeTunnelForVR sc st) = camRig st"
  "transitionRotEnd (initializeTunnelForVR sc st) = transitionRotEnd st"
  "emitted (initializeTunnelForVR sc st) = emitted st"
  by (simp_all add: initializeTunnelForVR_def Let_def split: option.split)

lemma getMouseState_keeps:
  "listeners (snd (getMouseState sc ev st)) = listeners st"
  "data (snd (getMouseState sc ev st)) = data st"
  "transitioning (snd (getMouseState sc ev st)) = transitioning st"
  "camRig (snd (getMouseState sc ev st)) = camRig st"
  "transitionRotEnd (snd (getMouseState sc ev st)) = transitionRotEnd st"
  "emitted (snd (getMouseState sc ev st)) = emitted st"
  by (simp_all add: getMouseState_def split: option.split prod.split)

lemma mouseDown_keeps:
  "listeners (mouseDown sc ev st) = listeners st"
  "data (mouseDown sc ev st) = data st"
  "transitioning (mouseDown sc ev st) = transitioning st"
  "camRig (mouseDown sc ev st) = camRig st"
  "transitionRotEnd (mouseDown sc ev st) = transitionRotEnd st"
  "emitted (mouseDown sc ev st) = emitted st"
  by (simp_all add: mouseDown_def split_beta getMouseState_keeps update_frame data_update)

lemma cursorClick_cases:
  "cursorClick sc st =
     (case fst (getTeleportPositionFromCursor sc st) of
        None \<Rightarrow> snd (getTeleportPositionFromCursor sc st)
      | Some l \<Rightarrow> confirmLanding l (snd (getTeleportPositionFromCursor sc st)))"
  by (simp add: cursorClick_def split: prod.split option.split)

lemma mouseUp_cases:
  "mouseUp sc ev st =
     (if mousePosition st = mouseOriginalPosition st
      then (case fst (getTeleportPosition sc (fst (mousePosition st)) (snd (mousePosition st)) st) of
              None \<Rightarrow> snd (getTeleportPosition sc (fst (mousePosition st)) (snd (mousePosition st)) st)
            | Some l \<Rightarrow> confirmLanding l
                (snd (getTeleportPosition sc (fst (mousePosition st)) (snd (mousePosition st)) st)))
      else st)"
  by (simp add: mouseUp_def split: prod.split option.split)

lemma confirmLanding_settled: "orientation_settled (confirmLanding l st)"
  by (simp add: orientation_settled_def confirmLanding_fields)

lemma settled_transfer:
  assumes "orientation_settled st"
    and "transitioning st' = transitioning st" and "data st' = data st"
    and "camRig st' = camRig st" and "transitionRotEnd st' = transitionRotEnd st"
  shows "orientation_settled st'"
  using assms by (simp add: orientation_settled_def)

lemma settled_idle: "\<not> transitioning st \<Longrightarrow> orientation_settled st"
  by (simp add: orientation_settled_def)

lemma handler_invariant:
  assumes "set (listeners st) \<subseteq> registered" and "orientation_settled st"
  shows "set (listeners (runHandler h sc ev st)) \<subseteq> registered
       \<and> orientation_settled (runHandler h sc ev st)"
proof (cases h)
  case OnEnterVR
  have "set (listeners (onEnterVR sc st)) \<subseteq> registered"
    using assms(1) by (simp add: onEnterVR_def setupCursor_registered tunnelInit_keeps)
  moreover have "\<not> transitioning (onEnterVR sc st)"
    by (simp add: onEnterVR_def setupCursor_keeps tunnelInit_keeps)
  ultimately show ?thesis
    using OnEnterVR by (simp add: settled_idle)
next
  case OnExitVR
  then show ?thesis
    using assms by (simp add: orientation_settled_def)
next
  case OnVisibilityChange
  have "orientation_settled (setupCursor sc st)"
    using assms(2) by (rule settled_transfer) (simp_all add: setupCursor_keeps setupCursor_frame)
  then show ?thesis
    using OnVisibilityChange assms
    by (simp add: onVisibilityChange_def setupCursor_registered)
next
  case CursorClickHandler
  let ?s = "snd (getTeleportPositionFromCursor sc st)"
  have "orientation_settled ?s"
    using assms(2) by (rule settled_transfer) (simp_all add: resolver_frame)
  then show ?thesis
    using CursorClickHandler assms(1)
    by (simp add: cursorClick_cases resolver_frame confirmLanding_fields confirmLanding_settled
          split: option.split)
next
  case HideCursor
  then show ?thesis
    using assms by (simp add: hideCursor_def orientation_settled_def)
next
  case MouseMove
  have "orientation_settled (snd (getMouseState sc ev st))"
    using assms(2) by (rule settled_transfer) (simp_all add: getMouseState_keeps)
  then show ?thesis
    using MouseMove assms(1) by (simp add: mouseMove_def getMouseState_keeps)
next
  case MouseDown
  have "orientation_settled (mouseDown sc ev st)"
    using assms(2) by (rule settled_transfer) (simp_all add: mouseDown_keeps)
  then show ?thesis
    using MouseDown assms(1) by (simp add: mouseDown_keeps)
next
  case MouseUp
  have s: "\<And>x y. orientation_settled (snd (getTeleportPosition sc x y st))"
    using assms(2) by (rule settled_transfer) (simp_all add: legacy_resolver_frame)
  have "orientation_settled (mouseUp sc ev st)"
    using assms(2) s
    by (simp add: mouseUp_cases confirmLanding_settled split: option.split)
  moreover have "listeners (mouseUp sc ev st) = listeners st"
    by (simp add: mouseUp_cases legacy_resolver_frame confirmLanding_fields split: option.split)
  ultimately show ?thesis
    using MouseUp assms(1) by simp
qed

lemma handlers_invariant:
  "set (listeners st) \<subseteq> registered \<Longrightarrow> orientation_settled st \<Longrightarrow>
     set (listeners (fold (\<lambda>h. runHandler h sc ev) hs st)) \<subseteq> registered
     \<and> orientation_settled (fold (\<lambda>h. runHandler h sc ev) hs st)"
proof (induction hs arbitrary: st)
  case Nil
  then show ?case by simp
next
  case (Cons h hs)
  have "set (listeners (runHandler h sc ev st)) \<subseteq> registered
        \<and> orientation_settled (runHandler h sc ev st)"
    using Cons.prems by (rule handler_invariant)
  then show ?case
    using Cons.IH [of "runHandler h sc ev st"] by simp
qed

lemma advance_settled:
  assumes "orientation_settled st"
  shows "orientation_settled (advanceTransition sc deltaTime st)"
proof (cases "1 \<le> transitionProgress st + deltaTime * transitionSpeed (data st)")
  case True
  then show ?thesis
    by (simp add: settled_idle advance_finished)
next
  case False
  then have "transitionProgress st + deltaTime * transitionSpeed (data st) < 1"
    by simp
  then show ?thesis
    using assms by (simp add: orientation_settled_def advance_running advance_frame)
qed

lemma tick_settled:
  assumes "orientation_settled st"
  shows "orientation_settled (tick sc time deltaTime st)"
proof (cases "transitioning st")
  case True
  have "orientation_settled (refreshRegistry sc time st)"
    using assms by (rule settled_transfer) (simp_all add: refresh_frame)
  then show ?thesis
    using True by (simp add: tick_transitioning advance_settled)
next
  case False
  then show ?thesis
    by (simp add: settled_idle tick_idle_frame)
qed

lemma init_invariant:
  "set (listeners (init sc d flags)) \<subseteq> registered \<and> orientation_settled (init sc d flags)"
proof -
  have "set (listeners (init sc d flags)) \<subseteq> registered"
    unfolding init_def
    by (rule setupCursor_registered) (simp add: update_frame registered_members)
  moreover have "\<not> transitioning (init sc d flags)"
    by (simp add: init_def setupCursor_keeps update_frame)
  ultimately show ?thesis
    by (simp add: settled_idle)
qed

lemma play_invariant:
  assumes "set (listeners st) \<subseteq> registered" and "orientation_settled st"
  shows "set (listeners (play sc st)) \<subseteq> registered \<and> orientation_settled (play sc st)"
proof -
  have "listeners (play sc st) = listeners (setupCursor sc st)
        \<or> listeners (play sc st) = listeners (setupCursor sc st) @ [(Window, ''keydown'', HideCursor)]"
    by (simp add: play_def Let_def tunnelInit_keeps)
  then have l: "set (listeners (play sc st)) \<subseteq> registered"
    using setupCursor_registered [OF assms(1), of sc] registered_members(5) by auto
  have "orientation_settled (play sc st)"
    using assms(2)
    by (rule settled_transfer)
       (simp_all add: play_def Let_def tunnelInit_keeps setupCursor_keeps setupCursor_frame)
  with l show ?thesis by simp
qed

lemma pause_invariant:
  assumes "set (listeners st) \<subseteq> registered"
  shows "set (listeners (pause st)) \<subseteq> registered \<and> orientation_settled (pause st)"
proof -
  have "set (listeners (pause st)) \<subseteq> set (listeners st)"
    by (simp add: pause_def hideCursor_def)
  moreover have "\<not> transitioning (pause st)"
    by (simp add: pause_def hideCursor_def)
  ultimately show ?thesis
    using assms by (simp add: settled_idle subset_trans)
qed

lemma timer_invariant:
  assumes "set (listeners st) \<subseteq> registered" and "orientation_settled st"
  shows "set (listeners (cursorRetryTimer sc st)) \<subseteq> registered
       \<and> orientation_settled (cursorRetryTimer sc st)"
proof (cases "pendingCursorRetry st = 0")
  case True
  then show ?thesis using assms by (simp add: cursorRetryTimer_def)
next
  case False
  let ?s = "st\<lparr> pendingCursorRetry := pendingCursorRetry st - 1 \<rparr>"
  have l: "set (listeners (setupCursor sc ?s)) \<subseteq> registered"
    by (rule setupCursor_registered) (simp add: assms(1))
  have "orientation_settled (setupCursor sc ?s)"
    using assms(2)
    by (rule settled_transfer) (simp_all add: setupCursor_keeps setupCursor_frame)
  with l False show ?thesis by (simp add: cursorRetryTimer_def)
qed

lemma reachable_invariant:
  "reachable st \<Longrightarrow> set (listeners st) \<subseteq> registered \<and> orientation_settled st"
proof (induction rule: reachable.induct)
  case (reach_init sc d flags)
  show ?case by (rule init_invariant)
next
  case (reach_play st sc)
  then show ?case by (simp add: play_invariant)
next
  case (reach_pause st)
  then show ?case by (simp add: pause_invariant)
next
  case (reach_tick st sc time deltaTime)
  then show ?case by (simp add: tick_frame tick_settled)
next
  case (reach_event st sc ev)
  then show ?case by (simp add: dispatchEvent_def handlers_invariant)
next
  case (reach_timer st sc)
  then show ?case by (simp add: timer_invariant)
next
  case (reach_navmesh st el)
  then show ?case by (simp add: orientation_settled_def)
next
  case (reach_exclude st el)
  then show ?case by (simp add: orientation_settled_def)
qed

lemma invoked_listener:
  "h \<in> set (invoked ev st) \<Longrightarrow> (ev_target ev, ev_type ev, h) \<in> set (listeners st)"
  by (auto simp: invoked_def)

lemma invoked_registered:
  assumes "set (listeners st) \<subseteq> registered"
  shows "MouseDown \<notin> set (invoked ev st)" and "MouseMove \<notin> set (invoked ev st)"
    and "MouseUp \<notin> set (invoked ev st)"
    and "CursorClickHandler \<in> set (invoked ev st) \<Longrightarrow>
           ev_target ev = CursorElement \<and> ev_type ev = ''click''"
  using assms invoked_listener registered_handler by blast+

lemma quiet_handler:
  "CursorClickHandler \<noteq> h \<Longrightarrow> MouseUp \<noteq> h \<Longrightarrow> emitted (runHandler h sc ev st) = emitted st"
  by (cases h)
     (simp_all add: onEnterVR_def onVisibilityChange_def setupCursor_keeps tunnelInit_keeps
        hideCursor_def mouseMove_def getMouseState_keeps mouseDown_keeps)

lemma quiet_handlers:
  "CursorClickHandler \<notin> set hs \<Longrightarrow> MouseUp \<notin> set hs \<Longrightarrow>
     emitted (fold (\<lambda>h. runHandler h sc ev) hs st) = emitted st"
  by (induction hs arbitrary: st) (simp_all add: quiet_handler)

subsection \<open>The example run\<close>

lemma resolver_inputs:
  "rayCastObjects (snd (getTeleportPositionFromCursor sc st)) = rayCastObjects st"
  "allSceneMeshes (snd (getTeleportPositionFromCursor sc st)) = allSceneMeshes st"
  "userData (snd (getTeleportPositionFromCursor sc st)) = userData st"
  "referenceNormal (snd (getTeleportPositionFromCursor sc st)) = referenceNormal st"
  "cursorRaycaster st \<Longrightarrow> cursorRaycaster (snd (getTeleportPositionFromCursor sc st))"
  by (simp_all add: getTeleportPositionFromCursor_def validateIntersect_def
        isValidNormalsAngle_def Let_def split: option.split list.split)

lemma updateIndicator_inputs:
  "rayCastObjects (updateIndicator sc time st) = rayCastObjects st"
  "allSceneMeshes (updateIndicator sc time st) = allSceneMeshes st"
  "userData (updateIndicator sc time st) = userData st"
  "referenceNormal (updateIndicator sc time st) = referenceNormal st"
  "cursorRaycaster st \<Longrightarrow> cursorRaycaster (updateIndicator sc time st)"
  by (simp_all add: updateIndicator_def Let_def split_beta resolver_inputs split: option.split)

lemma updateIndicator_visible:
  "visible (teleportIndicator (updateIndicator sc time st))
     = (if time - lastTeleportCheck st > teleportCheckInterval st
        then fst (getTeleportPositionFromCursor sc st) \<noteq> None
        else cachedTeleportPos st \<noteq> None)"
  by (simp add: updateIndicator_def Let_def split_beta split: option.split)

lemma refresh_hover:
  "lastTeleportCheck (refreshRegistry sc time st) = lastTeleportCheck st"
  "teleportCheckInterval (refreshRegistry sc time st) = teleportCheckInterval st"
  "cachedTeleportPos (refreshRegistry sc time st) = cachedTeleportPos st"
  by (simp_all add: refreshRegistry_def updateRaycastObjects_closed)

lemma floorReady_demo: "floorReady (demoState hits default_data)"
proof -
  have "isNavmesh (userData (demoState hits default_data) (SceneObject 1))"
       "collision (userData (demoState hits default_data) (SceneObject 1))"
    using demo_flags(1,2) [of default_data hits]
    by (simp_all add: collisionEntities_default floorMesh_def)
  moreover have "\<And>i. raycastExclude (userData (demoState hits default_data) i) = False"
    by (simp add: demo_userData collisionEntities_default markFlags_raycastExclude
          demoFlags_raycastExclude)
  ultimately show ?thesis
    by (simp add: floorReady_def demo_rayCastObjects demo_allSceneMeshes demo_cursorRaycaster
          demo_data collisionEntities_default)
qed

lemma floorReady_update:
  assumes "floorReady st"
  shows "floorReady (updateRaycastObjects (demoScene hits) st)"
proof -
  let ?st = "updateRaycastObjects (demoScene hits) st"
  have d: "data st = default_data" and ex: "\<And>i. raycastExclude (userData st i) = False"
    using assms by (simp_all add: floorReady_def)
  have q: "querySelectorAll (demoScene hits) ''[navmesh]'' = [floorEl, rampEl]"
          "sceneObject3D (demoScene hits) = sceneRoot"
    by (simp_all add: demoScene_def)
  have reg: "rayCastObjects ?st \<noteq> []"
    by (simp add: rayCastObjects_update registry_def d collisionEntities_default q meshesOf_def
          demo_objs)
  have all: "allSceneMeshes ?st = Some [floorMesh, boxMesh, rampMesh]"
    by (simp add: allSceneMeshes_update sceneMeshes_def q traverse_sceneRoot ex)
       (simp add: demo_objs)
  have u: "userData ?st = markFlags [floorEl, floorMesh, rampEl, rampMesh] (userData st)"
    by (simp add: userData_update d collisionEntities_default q demo_objs)
  have flags: "isNavmesh (userData ?st (SceneObject 1))" "collision (userData ?st (SceneObject 1))"
    by (simp_all add: u markFlags_def demo_objs)
  have ex': "\<And>i. raycastExclude (userData ?st i) = False"
    by (simp add: u markFlags_raycastExclude ex)
  show ?thesis
    using assms reg all flags ex'
    by (simp add: floorReady_def update_keeps data_update)
qed

lemma floorReady_refresh:
  "floorReady st \<Longrightarrow> floorReady (refreshRegistry (demoScene hits) time st)"
  using floorReady_update [of st hits]
  by (simp add: refreshRegistry_def floorReady_def)

lemma floorReady_updateIndicator:
  "floorReady st \<Longrightarrow> floorReady (updateIndicator sc time st)"
  by (simp add: floorReady_def updateIndicator_inputs updateIndicator_frame)

lemma floorReady_landing:
  assumes "floorReady st"
  shows "fst (getTeleportPositionFromCursor (demoScene [floorHit]) st)
           = Some \<lparr> point = Vector3 0 0 0, normal = Vector3 0 1 0 \<rparr>"
proof -
  have hits: "cursorIntersections (demoScene [floorHit]) st = [floorHit]"
    using assms
    by (simp add: floorReady_def cursorIntersections_def demoScene_aCursor rayThrough_def
          floorHit_def)
  have obj: "uuid (hit_object floorHit) = SceneObject 1" "hit_point floorHit = Vector3 0 0 0"
    by (simp_all add: floorHit_def floorMesh_def)
  have angle: "landingAngle st floorHit = 0"
    using assms by (simp add: landingAngle_floor floorReady_def)
  show ?thesis
    using assms
    by (simp add: resolver_result hits obj angle worldNormalOf_floorHit floorReady_def
          collisionEntities_default)
qed

lemma demo_initial:
  "listeners (demoState hits d)
     = [(SceneEl, ''enter-vr'', OnEnterVR), (SceneEl, ''exit-vr'', OnExitVR),
        (Document, ''visibilitychange'', OnVisibilityChange),
        (CursorElement, ''click'', CursorClickHandler)]"
  "\<not> transitioning (demoState hits d)"
  "emitted (demoState hits d) = []"
  "camRig (demoState hits d) = \<lparr> position = Vector3 0 0 5, quaternion = identityQ \<rparr>"
  "lastTeleportCheck (demoState hits d) = 0"
  "teleportCheckInterval (demoState hits d) = 16"
  "upVector (demoState hits d) = Vector3 0 1 0"
proof -
  have c: "elRaycaster (aCursor (demoScene hits)) \<noteq> None"
    by (simp add: demoScene_aCursor)
  show "listeners (demoState hits d)
     = [(SceneEl, ''enter-vr'', OnEnterVR), (SceneEl, ''exit-vr'', OnExitVR),
        (Document, ''visibilitychange'', OnVisibilityChange),
        (CursorElement, ''click'', CursorClickHandler)]"
    by (simp add: demoState_def init_def setupCursor_def c update_frame Let_def)
  show "\<not> transitioning (demoState hits d)"
    by (simp add: demoState_def init_def setupCursor_keeps update_frame)
  show "emitted (demoState hits d) = []"
    by (simp add: demoState_def init_def setupCursor_keeps update_frame)
  show "camRig (demoState hits d) = \<lparr> position = Vector3 0 0 5, quaternion = identityQ \<rparr>"
    by (simp add: demoState_def init_def setupCursor_keeps update_frame demoScene_def)
  show "lastTeleportCheck (demoState hits d) = 0"
    by (simp add: demoState_def init_def setupCursor_def Let_def updateRaycastObjects_closed)
  show "teleportCheckInterval (demoState hits d) = 16"
    by (simp add: demoState_def init_def setupCursor_def Let_def updateRaycastObjects_closed)
  show "upVector (demoState hits d) = Vector3 0 1 0"
    by (simp add: demoState_def init_def setupCursor_def Let_def updateRaycastObjects_closed)
qed

lemma hoverState_facts:
  "floorReady hoverState"
  "\<not> transitioning hoverState"
  "visible (teleportIndicator hoverState)"
  "listeners hoverState = listeners (demoState [floorHit] default_data)"
  "emitted hoverState = []"
  "camRig hoverState = \<lparr> position = Vector3 0 0 5, quaternion = identityQ \<rparr>"
  "data hoverState = default_data"
proof -
  let ?sc = "demoScene [floorHit]"
  let ?d = "demoState [floorHit] default_data"
  have idle: "\<not> transitioning ?d"
    by (rule demo_initial)
  have h: "hoverState = updateIndicator ?sc 100 (refreshRegistry ?sc 100 ?d)"
    using idle by (simp add: hoverState_def tick_idle)
  have ready: "floorReady (refreshRegistry ?sc 100 ?d)"
    by (rule floorReady_refresh) (rule floorReady_demo)
  show "floorReady hoverState"
    unfolding h using ready by (rule floorReady_updateIndicator)
  show "\<not> transitioning hoverState"
    unfolding hoverState_def using idle by (rule tick_idle_frame)
  show "visible (teleportIndicator hoverState)"
    unfolding h
    by (simp add: updateIndicator_visible refresh_hover demo_initial floorReady_landing [OF ready])
  show "listeners hoverState = listeners ?d"
    by (simp add: hoverState_def tick_frame)
  show "emitted hoverState = []"
    using idle by (simp add: hoverState_def tick_idle_frame demo_initial)
  show "camRig hoverState = \<lparr> position = Vector3 0 0 5, quaternion = identityQ \<rparr>"
    using idle by (simp add: hoverState_def tick_idle_frame demo_initial)
  show "data hoverState = default_data"
    by (simp add: hoverState_def tick_frame demo_data)
qed

lemma invoked_click: "invoked clickEvent hoverState = [CursorClickHandler]"
  by (simp add: invoked_def hoverState_facts demo_initial clickEvent_def)

lemma movingState_eq:
  "movingState = confirmLanding \<lparr> point = Vector3 0 0 0, normal = Vector3 0 1 0 \<rparr>
                   (snd (getTeleportPositionFromCursor (demoScene [floorHit]) hoverState))"
  by (simp add: movingState_def dispatchEvent_def invoked_click cursorClick_cases
        floorReady_landing [OF hoverState_facts(1)])

lemma movingState_facts:
  "reachable movingState"
  "transitioning movingState"
  "transitionProgress movingState = 0"
  "transitionCamPosStart movingState = Vector3 0 0 5"
  "transitionCamPosEnd movingState = Vector3 0 0 0"
  "emitted movingState = [''navigation-start'']"
  "data movingState = default_data"
  "visible (teleportIndicator movingState)"
  "position (camRig movingState) = Vector3 0 0 5"
proof -
  show "reachable movingState"
    by (simp add: movingState_def hoverState_def demoState_def reachable.intros)
qed (simp_all add: movingState_eq confirmLanding_fields resolver_frame hoverState_facts)

lemma default_speed: "transitionSpeed default_data = 6 / 10000" "alignToSurface default_data"
  "rotationSmoothing default_data = 1"
  by (simp_all add: default_data_def)

lemma advance_start:
  "transitionCamPosStart (advanceTransition sc deltaTime st) = transitionCamPosStart st"
  by (simp add: advanceTransition_def Let_def triggerTunnelUpAnimation_def split: option.split)

lemma midState_facts:
  "transitioning midState"
  "transitionProgress midState = 6 / 10"
  "position (camRig midState) = Vector3 0 0 (8 / 5)"
  "transitionCamPosStart midState = Vector3 0 0 5"
  "data midState = default_data"
proof -
  let ?r = "refreshRegistry (demoScene [floorHit]) 1116 movingState"
  have m: "midState = advanceTransition (demoScene [floorHit]) 1000 ?r"
    by (simp add: midState_def tick_transitioning movingState_facts)
  have p: "transitionProgress ?r + 1000 * transitionSpeed (data ?r) = 6 / 10"
    by (simp add: refresh_frame movingState_facts default_speed)
  have lt: "transitionProgress ?r + 1000 * transitionSpeed (data ?r) < 1"
    by (simp add: p)
  show "transitioning midState"
    by (simp add: m advance_running(1) [OF lt] refresh_frame movingState_facts)
  show "transitionProgress midState = 6 / 10"
    by (simp add: m advance_frame p)
  have "position (camRig midState)
          = lerpVectors (transitionCamPosStart ?r) (transitionCamPosEnd ?r)
              (easeInOutQuad (transitionProgress ?r + 1000 * transitionSpeed (data ?r)))"
    unfolding m by (rule advance_running(3) [OF lt])
  also have "\<dots> = lerpVectors (Vector3 0 0 5) (Vector3 0 0 0) (easeInOutQuad (6 / 10))"
    unfolding p by (simp add: refresh_frame movingState_facts)
  also have "\<dots> = Vector3 0 0 (8 / 5)"
    by (simp add: lerpVectors_def easeInOutQuad_def)
  finally show "position (camRig midState) = Vector3 0 0 (8 / 5)" .
  show "transitionCamPosStart midState = Vector3 0 0 5"
    by (simp add: m advance_start refresh_frame movingState_facts)
  show "data midState = default_data"
    by (simp add: midState_def tick_frame movingState_facts)
qed

subsection \<open>A registry that lost its surfaces\<close>

lemma staleState_fields:
  "reachable staleState"
  "rayCastObjects staleState = []"
  "allSceneMeshes staleState = Some [floorMesh, boxMesh, rampMesh]"
  "userData staleState = userData (demoState [floorHit] default_data)"
  "referenceNormal staleState = Vector3 0 1 0"
  "data staleState = default_data"
  "cursorRaycaster staleState"
proof -
  let ?sc = "untaggedScene [floorHit]"
  let ?st = "demoState [floorHit] default_data"
  let ?r = "refreshRegistry ?sc 100 ?st"
  have idle: "\<not> transitioning ?st"
    by (rule demo_initial)
  have s: "staleState = updateIndicator ?sc 100 ?r"
    using idle by (simp add: staleState_def tick_idle)
  have first: "lastRaycastUpdate ?st = None"
    by (simp add: demoState_def init_def setupCursor_def Let_def updateRaycastObjects_closed)
  have r: "?r = (updateRaycastObjects ?sc ?st)\<lparr> lastRaycastUpdate := Some 100 \<rparr>"
    by (simp add: refreshRegistry_def first)
  have q: "querySelectorAll ?sc = (\<lambda>sel. [])" "sceneObject3D ?sc = sceneRoot"
    by (simp_all add: untaggedScene_def demoScene_def)
  have ex: "\<And>i. raycastExclude (userData ?st i) = False"
    by (simp add: demo_userData collisionEntities_default markFlags_raycastExclude
          demoFlags_raycastExclude)
  show "reachable staleState"
    by (simp add: staleState_def demoState_def reachable.intros)
  show "rayCastObjects staleState = []"
    by (simp add: s updateIndicator_inputs r rayCastObjects_update registry_def demo_data q
          collisionEntities_default meshesOf_def)
  show "userData staleState = userData ?st"
    by (simp add: s updateIndicator_inputs r userData_update demo_data q
          collisionEntities_default markFlags_def)
  show "allSceneMeshes staleState = Some [floorMesh, boxMesh, rampMesh]"
    by (simp add: s updateIndicator_inputs r allSceneMeshes_update sceneMeshes_def q
          traverse_sceneRoot ex)
       (simp add: demo_objs)
  show "referenceNormal staleState = Vector3 0 1 0"
    by (simp add: s updateIndicator_inputs r update_keeps demo_data collisionEntities_default)
  show "data staleState = default_data"
    by (simp add: staleState_def tick_frame demo_data)
  show "cursorRaycaster staleState"
    by (simp add: s updateIndicator_inputs r update_keeps demo_cursorRaycaster)
qed

text \<open>
  C3 as stated fails on an empty registry list.  After the floor lost its tag and the
  registry was rebuilt, the floor mesh is still in the scene and still carries both flags;
  the ray meets it first, at a valid angle, and the resolver returns no landing.
\<close>

theorem valid_landing_counterexample:
  "reachable staleState
   \<and> cursorIntersections (untaggedScene [floorHit]) staleState = [floorHit]
   \<and> isNavmesh (userData staleState (uuid (hit_object floorHit)))
   \<and> collision (userData staleState (uuid (hit_object floorHit)))
   \<and> landingAngle staleState floorHit \<le> landingMaxAngle (data staleState)
   \<and> fst (getTeleportPositionFromCursor (untaggedScene [floorHit]) staleState) = None"
proof -
  have c: "\<And>hits. elRaycaster (aCursor (untaggedScene hits)) = Some (rayThrough hits)"
    by (simp add: untaggedScene_def demoScene_def)
  have hits: "cursorIntersections (untaggedScene [floorHit]) staleState = [floorHit]"
    by (simp add: cursorIntersections_def staleState_fields c rayThrough_def)
       (simp add: floorHit_def)
  have nav: "isNavmesh (userData staleState (uuid (hit_object floorHit)))"
    using demo_flags(1) [of default_data "[floorHit]"]
    by (simp add: staleState_fields collisionEntities_default floorHit_def)
  have col: "collision (userData staleState (uuid (hit_object floorHit)))"
    using demo_flags(2) [of default_data "[floorHit]"]
    by (simp add: staleState_fields collisionEntities_default floorHit_def)
  have angle: "landingAngle staleState floorHit \<le> landingMaxAngle (data staleState)"
    by (simp add: landingAngle_floor staleState_fields collisionEntities_default)
  have res: "fst (getTeleportPositionFromCursor (untaggedScene [floorHit]) staleState) = None"
    by (simp add: resolver_result staleState_fields)
  show ?thesis
    using staleState_fields(1) hits nav col angle res by simp
qed

subsection \<open>The transition controller\<close>

text \<open>
  C4.  The component is the only writer of the camera rig.  In every state it reaches in
  which a transition is in progress, a frame with a non-negative delta time and a positive transition speed does not decrease
  \<^verbatim>\<open>transitionProgress\<close> (and increases it when the delta time is positive).  On the
  frame on which the progress reaches 1 the transition ends: the rig position is exactly
  the end position, the rig orientation is exactly the end orientation, and
  \<^verbatim>\<open>navigation-end\<close> is emitted once; the frames that follow emit nothing more.  On a
  frame on which the progress stays below 1 the transition goes on and nothing is emitted.
\<close>

theorem transition_progress_and_completion:
  assumes "reachable st" and "transitioning st"
    and "0 \<le> deltaTime" and "0 < transitionSpeed (data st)"
  shows "transitionProgress st \<le> transitionProgress (tick sc time deltaTime st)
       \<and> (0 < deltaTime \<longrightarrow> transitionProgress st < transitionProgress (tick sc time deltaTime st))
       \<and> (if 1 \<le> transitionProgress (tick sc time deltaTime st)
          then \<not> transitioning (tick sc time deltaTime st)
             \<and> position (camRig (tick sc time deltaTime st)) = transitionCamPosEnd st
             \<and> quaternion (camRig (tick sc time deltaTime st)) = transitionRotEnd st
             \<and> emitted (tick sc time deltaTime st) = emitted st @ [''navigation-end'']
             \<and> emitted (frames fs (tick sc time deltaTime st))
                 = emitted st @ [''navigation-end'']
             \<and> camRig (frames fs (tick sc time deltaTime st)) = camRig (tick sc time deltaTime st)
          else transitioning (tick sc time deltaTime st)
             \<and> emitted (tick sc time deltaTime st) = emitted st)"
proof -
  let ?r = "refreshRegistry sc time st"
  let ?t = "tick sc time deltaTime st"
  have t: "?t = advanceTransition sc deltaTime ?r"
    using assms(2) by (rule tick_transitioning)
  have p: "transitionProgress ?t = transitionProgress st + deltaTime * transitionSpeed (data st)"
    by (simp add: t advance_frame refresh_frame)
  have step: "0 \<le> deltaTime * transitionSpeed (data st)"
    using assms(3,4) by simp
  have mono: "transitionProgress st \<le> transitionProgress ?t"
    using step by (simp add: p)
  have strict: "0 < deltaTime \<longrightarrow> transitionProgress st < transitionProgress ?t"
    using assms(4) by (simp add: p)
  have settled: "orientation_settled st"
    using assms(1) by (simp add: reachable_invariant)
  show ?thesis
  proof (cases "1 \<le> transitionProgress ?t")
    case True
    then have fin: "1 \<le> transitionProgress ?r + deltaTime * transitionSpeed (data ?r)"
      by (simp add: p refresh_frame)
    have idle: "\<not> transitioning ?t"
      unfolding t by (rule advance_finished(1) [OF fin])
    have pos: "position (camRig ?t) = transitionCamPosEnd st"
      unfolding t by (simp add: advance_finished(3) [OF fin] refresh_frame)
    have rot: "quaternion (camRig ?t) = transitionRotEnd st"
      unfolding t using settled assms(2)
      by (simp add: advance_finished(4) [OF fin] refresh_frame orientation_settled_def)
    have ev: "emitted ?t = emitted st @ [''navigation-end'']"
      unfolding t by (simp add: advance_finished(2) [OF fin] refresh_frame)
    have later: "emitted (frames fs ?t) = emitted ?t" "camRig (frames fs ?t) = camRig ?t"
      using frames_idle [OF idle, of fs] by simp_all
    show ?thesis
      using True mono strict idle pos rot ev later by simp
  next
    case False
    then have run: "transitionProgress ?r + deltaTime * transitionSpeed (data ?r) < 1"
      by (simp add: p refresh_frame)
    have "transitioning ?t"
      unfolding t using assms(2) by (simp add: advance_running(1) [OF run] refresh_frame)
    moreover have "emitted ?t = emitted st"
      unfolding t by (simp add: advance_running(2) [OF run] refresh_frame)
    ultimately show ?thesis
      using False mono strict by simp
  qed
qed

text \<open>
  After the click of the example run, a frame of two seconds takes the progress to
  \<open>1.2\<close>: the rig stands exactly on the landing point \<open>(0, 0, 0)\<close>.
\<close>

theorem transition_progress_and_completion_witness:
  "reachable movingState \<and> transitioning movingState
   \<and> transitionProgress movingState = 0
   \<and> transitionProgress (tick (demoScene [floorHit]) 2116 2000 movingState) = 6 / 5
   \<and> \<not> transitioning (tick (demoScene [floorHit]) 2116 2000 movingState)
   \<and> position (camRig (tick (demoScene [floorHit]) 2116 2000 movingState)) = Vector3 0 0 0
   \<and> emitted (tick (demoScene [floorHit]) 2116 2000 movingState)
       = [''navigation-start'', ''navigation-end'']
   \<and> emitted (frames [(demoScene [floorHit], 2132, 16)]
                (tick (demoScene [floorHit]) 2116 2000 movingState))
       = [''navigation-start'', ''navigation-end'']"
proof -
  let ?sc = "demoScene [floorHit]"
  have speed: "0 < transitionSpeed (data movingState)"
    by (simp add: movingState_facts default_speed)
  have p: "transitionProgress (tick ?sc 2116 2000 movingState) = 6 / 5"
    by (simp add: tick_transitioning movingState_facts advance_frame refresh_frame default_speed)
  show ?thesis
    using transition_progress_and_completion
            [OF movingState_facts(1) movingState_facts(2) _ speed,
             of 2000 ?sc 2116 "[(?sc, 2132, 16)]"]
    by (simp add: p movingState_facts)
qed

lemma upVector_kept:
  "upVector (refreshRegistry sc time st) = upVector st"
  "upVector (updateIndicator sc time st) = upVector st"
  "upVector (advanceTransition sc deltaTime st) = upVector st"
  "upVector (confirmLanding l st) = upVector st"
  by (simp_all add: refreshRegistry_def updateRaycastObjects_closed updateIndicator_def
        split_beta resolver_frame advanceTransition_def confirmLanding_def transition_def
        triggerTunnelAnimation_def triggerTunnelUpAnimation_def Let_def
        split: option.split)

lemma upVector_tick: "upVector (tick sc time deltaTime st) = upVector st"
  by (cases "transitioning st") (simp_all add: tick_transitioning tick_idle upVector_kept)

lemma setFromUnitVectors_up:
  "setFromUnitVectors (Vector3 0 1 0) (Vector3 0 1 0) = Quaternion 0 0 0 1"
  "setFromUnitVectors (Vector3 0 1 0) (Vector3 0 (- 1) 0) = Quaternion 0 0 1 0"
  by (simp_all add: setFromUnitVectors_def dot_def EPSILON_def normalizeQ_def Let_def)

lemma run_orientation:
  "upVector midState = Vector3 0 1 0"
  "transitionRotEnd midState = Quaternion 0 0 0 1"
  "quaternion (camRig movingState) = Quaternion 0 0 0 1"
proof -
  have up: "upVector hoverState = Vector3 0 1 0"
    by (simp add: hoverState_def upVector_tick demo_initial)
  show "upVector midState = Vector3 0 1 0"
    by (simp add: midState_def upVector_tick movingState_eq upVector_kept resolver_frame up)
  show "transitionRotEnd midState = Quaternion 0 0 0 1"
    by (simp add: midState_def tick_frame movingState_eq confirmLanding_fields resolver_frame
          hoverState_facts default_speed up setFromUnitVectors_up)
  show "quaternion (camRig movingState) = Quaternion 0 0 0 1"
    by (simp add: movingState_eq confirmLanding_fields resolver_frame hoverState_facts
          identityQ_def)
qed

text \<open>
  C5.  \<^verbatim>\<open>transition()\<close> takes the current position and orientation of the rig as the
  new start and the new target as the new end, and sets the progress back to 0, whatever
  transition was in progress.  The new end position is the target point; the new end
  orientation is the target orientation when one is passed, else the rotation of the up
  vector onto the target normal when surface alignment is on and a normal is given, else
  the current orientation of the rig.  The rig itself is not moved by the call, and the
  frame that follows moves it from where it stands towards the new end: it stays where it
  stands when no time has passed, and never returns to the start of the earlier transition.
\<close>

theorem transition_preempts:
  "transitionCamPosStart (transition positionData tq st) = position (camRig st)
   \<and> transitionRotStart (transition positionData tq st) = quaternion (camRig st)
   \<and> transitionCamPosEnd (transition positionData tq st)
       = (case positionData of WithNormal l \<Rightarrow> point l | BarePosition p \<Rightarrow> p)
   \<and> transitionRotEnd (transition positionData tq st)
       = (case tq of
            Some q \<Rightarrow> q
          | None \<Rightarrow> (case positionData of
                       WithNormal l \<Rightarrow>
                         if alignToSurface (data st)
                         then setFromUnitVectors (upVector st) (normal l)
                         else quaternion (camRig st)
                     | BarePosition p \<Rightarrow> quaternion (camRig st)))
   \<and> transitionProgress (transition positionData tq st) = 0
   \<and> transitioning (transition positionData tq st)
   \<and> camRig (transition positionData tq st) = camRig st
   \<and> position (camRig (tick sc time 0 (transition positionData tq st))) = position (camRig st)
   \<and> quaternion (camRig (tick sc time 0 (transition positionData tq st)))
       = (if alignToSurface (data st)
          then slerpQuaternions sc (quaternion (camRig st))
                 (transitionRotEnd (transition positionData tq st)) 0
          else quaternion (camRig st))
   \<and> (if deltaTime * transitionSpeed (data st) < 1
      then position (camRig (tick sc time deltaTime (transition positionData tq st)))
             = lerpVectors (position (camRig st))
                 (case positionData of WithNormal l \<Rightarrow> point l | BarePosition p \<Rightarrow> p)
                 (easeInOutQuad (deltaTime * transitionSpeed (data st)))
         \<and> quaternion (camRig (tick sc time deltaTime (transition positionData tq st)))
             = (if alignToSurface (data st)
                then slerpQuaternions sc (quaternion (camRig st))
                       (transitionRotEnd (transition positionData tq st))
                       (min (easeInOutQuad (deltaTime * transitionSpeed (data st))
                               * rotationSmoothing (data st)) 1)
                else quaternion (camRig st))
      else position (camRig (tick sc time deltaTime (transition positionData tq st)))
             = (case positionData of WithNormal l \<Rightarrow> point l | BarePosition p \<Rightarrow> p)
         \<and> quaternion (camRig (tick sc time deltaTime (transition positionData tq st)))
             = (if alignToSurface (data st)
                then transitionRotEnd (transition positionData tq st)
                else quaternion (camRig st)))"
proof -
  let ?n = "transition positionData tq st"
  let ?r = "refreshRegistry sc time ?n"
  let ?target = "case positionData of WithNormal l \<Rightarrow> point l | BarePosition p \<Rightarrow> p"
  have rot: "transitionRotEnd ?n
       = (case tq of
            Some q \<Rightarrow> q
          | None \<Rightarrow> (case positionData of
                       WithNormal l \<Rightarrow>
                         if alignToSurface (data st)
                         then setFromUnitVectors (upVector st) (normal l)
                         else quaternion (camRig st)
                     | BarePosition p \<Rightarrow> quaternion (camRig st)))"
    by (rule transition_fields)
  have t: "\<And>dt. tick sc time dt ?n = advanceTransition sc dt ?r"
    by (rule tick_transitioning) (rule transition_fields)
  have p: "\<And>dt. transitionProgress ?r + dt * transitionSpeed (data ?r)
              = dt * transitionSpeed (data st)"
    by (simp add: refresh_frame transition_fields)
  have fields: "transitionCamPosStart ?r = position (camRig st)"
    "transitionCamPosEnd ?r = ?target"
    "transitionRotStart ?r = quaternion (camRig st)"
    "transitionRotEnd ?r = transitionRotEnd ?n"
    "camRig ?r = camRig st" "data ?r = data st"
    by (simp_all add: refresh_frame transition_fields)
  have zero: "transitionProgress ?r + 0 * transitionSpeed (data ?r) < 1"
    by (simp add: refresh_frame transition_fields)
  have lerp0: "\<And>a b. lerpVectors a b (easeInOutQuad 0) = a"
    by (simp add: lerpVectors_def easeInOutQuad_def)
  have pos0: "position (camRig (tick sc time 0 ?n)) = position (camRig st)"
    unfolding t
    by (simp add: advance_running(3) [OF zero] refresh_frame transition_fields lerp0)
  have rot0: "quaternion (camRig (tick sc time 0 ?n))
       = (if alignToSurface (data st)
          then slerpQuaternions sc (quaternion (camRig st)) (transitionRotEnd ?n) 0
          else quaternion (camRig st))"
    unfolding t
    by (simp add: advance_running(4) [OF zero] refresh_frame transition_fields
          easeInOutQuad_def)
  have next_frame:
    "if deltaTime * transitionSpeed (data st) < 1
     then position (camRig (tick sc time deltaTime ?n))
            = lerpVectors (position (camRig st)) ?target
                (easeInOutQuad (deltaTime * transitionSpeed (data st)))
        \<and> quaternion (camRig (tick sc time deltaTime ?n))
            = (if alignToSurface (data st)
               then slerpQuaternions sc (quaternion (camRig st)) (transitionRotEnd ?n)
                      (min (easeInOutQuad (deltaTime * transitionSpeed (data st))
                              * rotationSmoothing (data st)) 1)
               else quaternion (camRig st))
     else position (camRig (tick sc time deltaTime ?n)) = ?target
        \<and> quaternion (camRig (tick sc time deltaTime ?n))
            = (if alignToSurface (data st) then transitionRotEnd ?n
               else quaternion (camRig st))"
  proof (cases "deltaTime * transitionSpeed (data st) < 1")
    case True
    then have run: "transitionProgress ?r + deltaTime * transitionSpeed (data ?r) < 1"
      by (simp add: p)
    have "position (camRig (tick sc time deltaTime ?n))
            = lerpVectors (transitionCamPosStart ?r) (transitionCamPosEnd ?r)
                (easeInOutQuad (transitionProgress ?r
                   + deltaTime * transitionSpeed (data ?r)))"
      unfolding t by (rule advance_running(3) [OF run])
    moreover have "quaternion (camRig (tick sc time deltaTime ?n))
            = (if alignToSurface (data ?r)
               then slerpQuaternions sc (transitionRotStart ?r) (transitionRotEnd ?r)
                      (min (easeInOutQuad (transitionProgress ?r
                              + deltaTime * transitionSpeed (data ?r))
                            * rotationSmoothing (data ?r)) 1)
               else quaternion (camRig ?r))"
      unfolding t by (rule advance_running(4) [OF run])
    ultimately show ?thesis
      unfolding p using True by (simp add: fields)
  next
    case False
    then have fin: "1 \<le> transitionProgress ?r + deltaTime * transitionSpeed (data ?r)"
      by (simp add: p)
    have "position (camRig (tick sc time deltaTime ?n)) = transitionCamPosEnd ?r"
      unfolding t by (rule advance_finished(3) [OF fin])
    moreover have "quaternion (camRig (tick sc time deltaTime ?n))
            = (if alignToSurface (data ?r) then transitionRotEnd ?r else quaternion (camRig ?r))"
      unfolding t by (rule advance_finished(4) [OF fin])
    ultimately show ?thesis
      using False by (simp add: fields)
  qed
  have simple: "transitionCamPosStart ?n = position (camRig st)"
    "transitionRotStart ?n = quaternion (camRig st)"
    "transitionCamPosEnd ?n = ?target"
    "transitionProgress ?n = 0" "transitioning ?n" "camRig ?n = camRig st"
    by (simp_all add: transition_fields)
  show ?thesis
    using simple rot pos0 rot0 next_frame by blast
qed

text \<open>
  In the example run the first transition started at \<open>(0, 0, 5)\<close>, with the identity as
  its end orientation, and has taken the rig to \<open>(0, 0, 1.6)\<close> when a second transition
  starts, to the point \<open>(3, 0, 0)\<close> on a surface whose normal points down.  Its start
  is \<open>(0, 0, 1.6)\<close>, its end orientation is the half turn that takes the up vector
  onto that normal, and the rig is still at \<open>(0, 0, 1.6)\<close> after a frame of no
  duration.
\<close>

theorem transition_preempts_witness:
  "transitioning midState \<and> transitionCamPosStart midState = Vector3 0 0 5
   \<and> transitionRotEnd midState = Quaternion 0 0 0 1
   \<and> position (camRig midState) = Vector3 0 0 (8 / 5)
   \<and> transitionCamPosStart
        (transition (WithNormal \<lparr> point = Vector3 3 0 0, normal = Vector3 0 (- 1) 0 \<rparr>)
           None midState)
       = Vector3 0 0 (8 / 5)
   \<and> transitionCamPosEnd
        (transition (WithNormal \<lparr> point = Vector3 3 0 0, normal = Vector3 0 (- 1) 0 \<rparr>)
           None midState)
       = Vector3 3 0 0
   \<and> transitionRotEnd
        (transition (WithNormal \<lparr> point = Vector3 3 0 0, normal = Vector3 0 (- 1) 0 \<rparr>)
           None midState)
       = Quaternion 0 0 1 0
   \<and> transitionRotEnd
        (transition (WithNormal \<lparr> point = Vector3 3 0 0, normal = Vector3 0 (- 1) 0 \<rparr>)
           (Some (Quaternion 1 0 0 0)) midState)
       = Quaternion 1 0 0 0
   \<and> position (camRig (tick (demoScene []) 1116 0
        (transition (WithNormal \<lparr> point = Vector3 3 0 0, normal = Vector3 0 (- 1) 0 \<rparr>)
           None midState)))
       = Vector3 0 0 (8 / 5)"
  using transition_preempts
          [of "WithNormal \<lparr> point = Vector3 3 0 0, normal = Vector3 0 (- 1) 0 \<rparr>" None midState
              "demoScene []" 1116 0]
        transition_preempts
          [of "WithNormal \<lparr> point = Vector3 3 0 0, normal = Vector3 0 (- 1) 0 \<rparr>"
              "Some (Quaternion 1 0 0 0)" midState "demoScene []" 1116 0]
  by (simp add: midState_facts run_orientation default_speed setFromUnitVectors_up)

subsection \<open>The hover indicator\<close>

text \<open>
  C7, as amended.  While a transition is in progress the frame callback leaves the
  indicator as it is: its visibility, position and orientation are neither recomputed nor
  changed, and starting a transition does not hide it.  On an idle frame the indicator is
  recomputed: it is visible exactly when the hover result (computed anew when the throttle
  interval has passed, cached otherwise) is a landing.
\<close>

theorem indicator_kept_while_transitioning:
  "(if transitioning st
    then teleportIndicator (tick sc time deltaTime st) = teleportIndicator st
    else visible (teleportIndicator (tick sc time deltaTime st))
           = (if time - lastTeleportCheck st > teleportCheckInterval st
              then fst (getTeleportPositionFromCursor sc (refreshRegistry sc time st)) \<noteq> None
              else cachedTeleportPos st \<noteq> None))
   \<and> teleportIndicator (transition positionData tq st) = teleportIndicator st
   \<and> visible (teleportIndicator (confirmLanding l st)) = visible (teleportIndicator st)"
proof (cases "transitioning st")
  case True
  then show ?thesis
    by (simp add: tick_transitioning advance_frame refresh_frame transition_fields
          confirmLanding_fields)
next
  case False
  then show ?thesis
    by (simp add: tick_idle updateIndicator_visible refresh_hover transition_fields
          confirmLanding_fields)
qed

lemma updateIndicator_hover:
  "lastTeleportCheck (updateIndicator sc time st)
     = (if time - lastTeleportCheck st > teleportCheckInterval st then time
        else lastTeleportCheck st)"
  "teleportCheckInterval (updateIndicator sc time st) = teleportCheckInterval st"
  by (simp_all add: updateIndicator_def Let_def split_beta getTeleportPositionFromCursor_def
        validateIntersect_def isValidNormalsAngle_def split: option.split list.split)

theorem indicator_kept_while_transitioning_witness:
  "transitioning movingState
   \<and> teleportIndicator (tick (demoScene []) 116 16 movingState) = teleportIndicator movingState
   \<and> \<not> transitioning hoverState
   \<and> visible (teleportIndicator (tick (demoScene []) 200 16 hoverState)) = False"
proof -
  have blocked: "fst (getTeleportPositionFromCursor (demoScene [])
                   (refreshRegistry (demoScene []) 200 hoverState)) = None"
    by (simp add: resolver_result cursorIntersections_def demoScene_aCursor rayThrough_def)
  have idle: "\<not> transitioning (demoState [floorHit] default_data)"
    by (rule demo_initial)
  have t: "lastTeleportCheck hoverState = 100" "teleportCheckInterval hoverState = 16"
    by (simp_all add: hoverState_def tick_idle [OF idle] updateIndicator_hover refresh_hover
          demo_initial)
  have moving: "teleportIndicator (tick (demoScene []) 116 16 movingState)
                  = teleportIndicator movingState"
    using indicator_kept_while_transitioning
            [of movingState "demoScene []" 116 16 "BarePosition (Vector3 0 0 0)" None
                "\<lparr> point = Vector3 0 0 0, normal = Vector3 0 1 0 \<rparr>"]
    by (simp add: movingState_facts)
  have hover: "visible (teleportIndicator (tick (demoScene []) 200 16 hoverState)) = False"
    using indicator_kept_while_transitioning
            [of hoverState "demoScene []" 200 16 "BarePosition (Vector3 0 0 0)" None
                "\<lparr> point = Vector3 0 0 0, normal = Vector3 0 1 0 \<rparr>"]
    by (simp add: hoverState_facts t blocked)
  show ?thesis
    using moving hover by (simp add: movingState_facts hoverState_facts)
qed

text \<open>
  C7 as stated fails.  In the example run the indicator is visible when the user clicks;
  the transition starts and the indicator is still visible, and it still is after the next
  frame of the transition.
\<close>

theorem indicator_hidden_counterexample:
  "transitioning movingState \<and> visible (teleportIndicator movingState)
   \<and> transitioning (tick (demoScene [floorHit]) 116 16 movingState)
   \<and> visible (teleportIndicator (tick (demoScene [floorHit]) 116 16 movingState))"
proof -
  let ?sc = "demoScene [floorHit]"
  let ?r = "refreshRegistry ?sc 116 movingState"
  have t: "tick ?sc 116 16 movingState = advanceTransition ?sc 16 ?r"
    by (simp add: tick_transitioning movingState_facts)
  have run: "transitionProgress ?r + 16 * transitionSpeed (data ?r) < 1"
    by (simp add: refresh_frame movingState_facts default_speed)
  have "transitioning (tick ?sc 116 16 movingState)"
    unfolding t by (simp add: advance_running(1) [OF run] refresh_frame movingState_facts)
  moreover have "visible (teleportIndicator (tick ?sc 116 16 movingState))"
    unfolding t by (simp add: advance_frame refresh_frame movingState_facts)
  ultimately show ?thesis
    by (simp add: movingState_facts)
qed

subsection \<open>The mouse adapter\<close>

text \<open>
  C10.  In every state the component reaches, its registered listeners are among the five
  it ever registers (enter-vr, exit-vr, visibilitychange, the cursor click and the keydown
  that hides the indicator).  No event therefore runs \<^verbatim>\<open>mouseDown\<close>,
  \<^verbatim>\<open>mouseMove\<close> or \<^verbatim>\<open>mouseUp\<close>, and an event that starts a transition (that emits
  anything) is a click on the cursor element, handled by the cursor click handler.
\<close>

theorem mouse_adapter_unreachable:
  assumes "reachable st"
  shows "set (listeners st) \<subseteq> registered
       \<and> MouseDown \<notin> set (invoked ev st) \<and> MouseMove \<notin> set (invoked ev st)
       \<and> MouseUp \<notin> set (invoked ev st)
       \<and> (emitted (dispatchEvent sc ev st) \<noteq> emitted st \<longrightarrow>
            ev_target ev = CursorElement \<and> ev_type ev = ''click''
            \<and> CursorClickHandler \<in> set (invoked ev st))"
proof -
  have reg: "set (listeners st) \<subseteq> registered"
    using assms by (simp add: reachable_invariant)
  have up: "MouseUp \<notin> set (invoked ev st)"
    using reg by (rule invoked_registered)
  have "emitted (dispatchEvent sc ev st) \<noteq> emitted st \<longrightarrow> CursorClickHandler \<in> set (invoked ev st)"
    using up quiet_handlers [of "invoked ev st" sc ev st] by (auto simp: dispatchEvent_def)
  then show ?thesis
    using reg up invoked_registered [OF reg, of ev] by blast
qed

theorem mouse_adapter_unreachable_witness:
  "reachable hoverState
   \<and> invoked clickEvent hoverState = [CursorClickHandler]
   \<and> invoked (clickEvent\<lparr> ev_target := Canvas, ev_type := ''mouseup'' \<rparr>) hoverState = []
   \<and> MouseUp \<notin> set (invoked clickEvent hoverState)
   \<and> emitted (dispatchEvent (demoScene [floorHit]) clickEvent hoverState) = [''navigation-start'']"
proof -
  have r: "reachable hoverState"
    by (simp add: hoverState_def demoState_def reachable.intros)
  have none: "invoked (clickEvent\<lparr> ev_target := Canvas, ev_type := ''mouseup'' \<rparr>) hoverState = []"
    by (simp add: invoked_def hoverState_facts demo_initial)
  have e: "emitted (dispatchEvent (demoScene [floorHit]) clickEvent hoverState)
             = [''navigation-start'']"
    using movingState_facts(6) by (simp add: movingState_def)
  show ?thesis
    using mouse_adapter_unreachable [OF r, of clickEvent "demoScene [floorHit]"]
          r invoked_click none e
    by simp
qed

subsection \<open>The reference normal\<close>

text \<open>
  The reference normal is copied from the configured \<^verbatim>\<open>landingNormal\<close> when the
  component is initialised; no operation of the component changes either of them.
\<close>

lemma config_kept:
  "referenceNormal (initializeTunnelForVR sc st) = referenceNormal st"
  "referenceNormal (hideCursor st) = referenceNormal st"
  "data (hideCursor st) = data st"
  "referenceNormal (advanceTransition sc deltaTime st) = referenceNormal st"
  "referenceNormal (transition positionData tq st) = referenceNormal st"
  "referenceNormal (snd (getMouseState sc ev st)) = referenceNormal st"
  "referenceNormal (snd (validateIntersect h st)) = referenceNormal st"
  by (simp_all add: initializeTunnelForVR_def hideCursor_def advanceTransition_def
        transition_def triggerTunnelAnimation_def triggerTunnelUpAnimation_def
        getMouseState_def validateIntersect_def isValidNormalsAngle_def Let_def
        split: option.split PositionData.split prod.split)

lemma config_confirmLanding:
  "referenceNormal (confirmLanding l st) = referenceNormal st"
  by (simp add: confirmLanding_def Let_def config_kept)

lemma config_tick:
  "referenceNormal (tick sc time deltaTime st) = referenceNormal st"
  by (cases "transitioning st")
     (simp_all add: tick_transitioning tick_idle config_kept updateIndicator_inputs
        refreshRegistry_def update_keeps)

lemma config_legacy:
  "referenceNormal (snd (getTeleportPosition sc x y st)) = referenceNormal st"
  by (simp add: getTeleportPosition_def Let_def config_kept split: list.split)

lemma config_handler:
  "referenceNormal (runHandler h sc ev st) = referenceNormal st
   \<and> data (runHandler h sc ev st) = data st"
proof (cases h)
  case MouseDown
  then show ?thesis
    by (simp add: mouseDown_keeps)
       (simp add: mouseDown_def split_beta config_kept update_keeps)
next
  case MouseUp
  then show ?thesis
    by (simp add: mouseUp_cases config_legacy legacy_resolver_frame config_confirmLanding
          confirmLanding_fields split: option.split)
next
  case CursorClickHandler
  then show ?thesis
    by (simp add: cursorClick_cases resolver_inputs resolver_frame config_confirmLanding
          confirmLanding_fields split: option.split)
qed (simp_all add: onEnterVR_def onVisibilityChange_def setupCursor_frame config_kept
       tunnelInit_keeps mouseMove_def getMouseState_keeps)

lemma config_handlers:
  "referenceNormal (fold (\<lambda>h. runHandler h sc ev) hs st) = referenceNormal st
   \<and> data (fold (\<lambda>h. runHandler h sc ev) hs st) = data st"
  by (induction hs arbitrary: st) (simp_all add: config_handler)

lemma reachable_reference:
  "reachable st \<Longrightarrow> referenceNormal st = landingNormal (data st)"
proof (induction rule: reachable.induct)
  case (reach_init sc d flags)
  show ?case
    by (simp add: init_def setupCursor_frame update_keeps data_update)
next
  case (reach_play st sc)
  then show ?case
    by (simp add: play_def Let_def config_kept tunnelInit_keeps setupCursor_frame)
next
  case (reach_pause st)
  then show ?case by (simp add: pause_def hideCursor_def)
next
  case (reach_tick st sc time deltaTime)
  then show ?case by (simp add: config_tick tick_frame)
next
  case (reach_event st sc ev)
  then show ?case by (simp add: dispatchEvent_def config_handlers)
next
  case (reach_timer st sc)
  then show ?case by (simp add: cursorRetryTimer_def setupCursor_frame)
next
  case (reach_navmesh st el)
  then show ?case by simp
next
  case (reach_exclude st el)
  then show ?case by simp
qed

text \<open>
  C2.  In every state the component reaches: when the nearest intersection of the ray query
  lies on a surface whose world normal (the face normal transformed by the normal matrix of
  its object) makes an angle of more than \<^verbatim>\<open>landingMaxAngle\<close> degrees with the
  configured \<^verbatim>\<open>landingNormal\<close>, the resolver returns no landing, whatever lies
  further along the ray (and whatever the flags of the surface are).
\<close>

theorem steep_surface_rejected:
  assumes "reachable st"
    and "cursorIntersections sc st = firstHit # further"
    and "RAD2DEG * angleTo (landingNormal (data st))
           (applyNormalMatrix (face_normal firstHit)
              (getNormalMatrix (matrixWorld (hit_object firstHit))))
         > landingMaxAngle (data st)"
  shows "fst (getTeleportPositionFromCursor sc st) = None"
proof -
  have "referenceNormal st = landingNormal (data st)"
    using assms(1) by (rule reachable_reference)
  then have "landingAngle st firstHit > landingMaxAngle (data st)"
    using assms(3) by (simp add: landingAngle_def)
  then show ?thesis
    using assms(2) by (simp add: resolver_result)
qed

text \<open>
  The ray meets the ramp first, a navmesh whose normal is horizontal (90 degrees from the
  reference), and the valid floor behind it.
\<close>

theorem steep_surface_rejected_witness:
  "reachable (demoState [rampHit, floorHit] default_data)
   \<and> cursorIntersections (demoScene [rampHit, floorHit]) (demoState [rampHit, floorHit] default_data)
     = [rampHit, floorHit]
   \<and> isNavmesh (userData (demoState [rampHit, floorHit] default_data) (uuid rampMesh))
   \<and> collision (userData (demoState [rampHit, floorHit] default_data) (uuid rampMesh))
   \<and> landingAngle (demoState [rampHit, floorHit] default_data) rampHit = 90
   \<and> landingMaxAngle (data (demoState [rampHit, floorHit] default_data)) = 45
   \<and> fst (getTeleportPositionFromCursor (demoScene [rampHit, floorHit])
            (demoState [rampHit, floorHit] default_data)) = None"
proof -
  let ?sc = "demoScene [rampHit, floorHit]"
  let ?st = "demoState [rampHit, floorHit] default_data"
  have r: "reachable ?st"
    by (simp add: demoState_def reachable.intros)
  have hits: "cursorIntersections ?sc ?st = rampHit # [floorHit]"
    by (simp add: demo_cursorIntersections rampHit_def floorHit_def)
  have angle: "landingAngle ?st rampHit = 90"
    by (rule landingAngle_ramp) (simp add: demo_data collisionEntities_default)
  have steep: "RAD2DEG * angleTo (landingNormal (data ?st))
           (applyNormalMatrix (face_normal rampHit)
              (getNormalMatrix (matrixWorld (hit_object rampHit))))
         > landingMaxAngle (data ?st)"
    using angle by (simp add: landingAngle_def demo_data collisionEntities_default)
  have flags: "isNavmesh (userData ?st (uuid rampMesh))" "collision (userData ?st (uuid rampMesh))"
    by (rule demo_flags, simp add: collisionEntities_default)+
  show ?thesis
    using steep_surface_rejected [OF r hits steep] r hits angle flags
    by (simp add: demo_data collisionEntities_default)
qed

text \<open>
  C6.  The easing function of the code and the symmetric quadratic ease of the
  specification are the same function: they agree at every \<open>t\<close>, in particular at every
  \<open>t\<close> of the unit interval.
\<close>

theorem easeInOutQuad_refines_spec:
  "easeInOutQuad t = spec_easeInOutQuad t"
proof -
  have "(4 - 2 * t) * t - 1 = 1 - ((- 2 * t + 2)\<^sup>2) / 2"
    by (simp add: power2_eq_square field_simps)
  then show ?thesis
    by (simp add: easeInOutQuad_def spec_easeInOutQuad_def power2_eq_square)
qed

theorem easeInOutQuad_refines_spec_witness:
  "easeInOutQuad (3 / 4) = spec_easeInOutQuad (3 / 4) \<and> easeInOutQuad (3 / 4) = 7 / 8
   \<and> easeInOutQuad (1 / 4) = spec_easeInOutQuad (1 / 4) \<and> easeInOutQuad (1 / 4) = 1 / 8"
  using easeInOutQuad_refines_spec [of "3 / 4"] easeInOutQuad_refines_spec [of "1 / 4"]
  by (simp add: easeInOutQuad_def)

end
